theory Spec2Isabelle
  imports Complex_Main "HOL-Library.AList"
begin

section \<open>JavaScript values, objects and responses\<close>

text \<open>
  The values that travel through \<^verbatim>\<open>server.js\<close>: strings, integral numbers, booleans,
  dates (milliseconds since the epoch, or the Invalid Date that \<^verbatim>\<open>new Date(s)\<close> gives
  for an unparsable string), Mongo object identifiers and nested objects. An object is
  an association list of its own properties; a property holding \<^verbatim>\<open>undefined\<close> is absent.
\<close>

datatype jsval =
    Str string
  | Num int
  | Bool bool
  | DateV int
  | InvalidDate
  | ObjId nat
  | Obj "(string \<times> jsval) list"

type_synonym obj = "(string \<times> jsval) list"

text \<open>Property read \<^verbatim>\<open>o.k\<close>: \<open>None\<close> is \<^verbatim>\<open>undefined\<close>.\<close>

definition field :: "obj \<Rightarrow> string \<Rightarrow> jsval option" where
  "field ob k = map_of ob k"

text \<open>The string held by a property, when it holds one.\<close>

definition str_prop :: "obj \<Rightarrow> string \<Rightarrow> string option" where
  "str_prop ob k = (case field ob k of Some (Str s) \<Rightarrow> Some s | _ \<Rightarrow> None)"

text \<open>
  JavaScript truthiness, as the handlers' \<^verbatim>\<open>!x\<close> tests use it: \<^verbatim>\<open>undefined\<close>, the
  empty string, zero and \<^verbatim>\<open>false\<close> are falsy.
\<close>

fun truthy :: "jsval option \<Rightarrow> bool" where
  "truthy None = False"
| "truthy (Some (Str s)) = (s \<noteq> [])"
| "truthy (Some (Num n)) = (n \<noteq> 0)"
| "truthy (Some (Bool b)) = b"
| "truthy (Some _) = True"

text \<open>
  An object literal whose property values may be \<^verbatim>\<open>undefined\<close>; \<^verbatim>\<open>res.json\<close> and the
  Mongoose constructors drop such properties.
\<close>

fun literal :: "(string \<times> jsval option) list \<Rightarrow> obj" where
  "literal [] = []"
| "literal ((k, None) # ps) = literal ps"
| "literal ((k, Some v) # ps) = (k, v) # literal ps"

text \<open>\<^verbatim>\<open>Number.prototype.toString\<close> on an integral number: decimal digits.\<close>

function string_of_nat :: "nat \<Rightarrow> string" where
  "string_of_nat n =
     (if n < 10 then [''0123456789'' ! n]
      else string_of_nat (n div 10) @ [''0123456789'' ! (n mod 10)])"
  by pat_completeness auto
termination
  by (relation "measure id") auto

declare string_of_nat.simps [simp del]

definition string_of_int :: "int \<Rightarrow> string" where
  "string_of_int i =
     (if i < 0 then CHR ''-'' # string_of_nat (nat (- i)) else string_of_nat (nat i))"

text \<open>
  \<^verbatim>\<open>x.toString()\<close> for the values a JSON body can hold in a scalar field.
\<close>

fun toString :: "jsval \<Rightarrow> string" where
  "toString (Str s) = s"
| "toString (Num n) = string_of_int n"
| "toString (Bool b) = (if b then ''true'' else ''false'')"
| "toString _ = ''[object Object]''"

text \<open>
  A response: the status given to \<^verbatim>\<open>res.status\<close> (200 when the handler calls
  \<^verbatim>\<open>res.json\<close> directly) and the JSON body.
\<close>

record response =
  status :: nat
  body :: obj

definition failure :: "nat \<Rightarrow> string \<Rightarrow> response" where
  "failure code msg =
     \<lparr>status = code, body = [(''success'', Bool False), (''message'', Str msg)]\<rparr>"

definition message :: "response \<Rightarrow> string option" where
  "message r = str_prop (body r) ''message''"

section \<open>External collaborators\<close>

text \<open>
  The libraries and services the handlers call are parameters of the model: token
  signing and verification, password hashing, the SMS provider, the date parser, the
  QR encoder, the clock, the random source and the identifier generator. Nothing is
  assumed about them beyond their types.
\<close>

datatype delivery = Delivered | Rejected string

datatype js_error = ReferenceError | TypeError | LibraryError

datatype image_source = FromBuffer string | FromPath string

record env =
  jwt_sign :: "obj \<Rightarrow> string"
  jwt_verify :: "string \<Rightarrow> obj option"
  bcrypt_hash :: "string \<Rightarrow> string"
  bcrypt_compare :: "string \<Rightarrow> string \<Rightarrow> bool"
  twilio_create :: "string \<Rightarrow> string \<Rightarrow> delivery"
  node_env :: "string option"
  math_random :: real
  date_now :: "nat \<Rightarrow> int"
  date_parse :: "string \<Rightarrow> int option"
  qr_toDataURL :: "obj \<Rightarrow> string option"
  new_object_id :: nat
  load_image :: "image_source \<Rightarrow> js_error + nat"
  detect_single_face :: "nat \<Rightarrow> js_error + real list option"
  euclidean_distance :: "real list \<Rightarrow> real list \<Rightarrow> js_error + real"
  email_condition :: "jsval \<Rightarrow> (obj \<Rightarrow> bool) option"

text \<open>
  \<open>date_now e k\<close> is the \<open>k\<close>-th reading of \<^verbatim>\<open>Date.now()\<close> during the request;
  \<open>jwt_verify\<close> gives \<open>None\<close> where \<^verbatim>\<open>jwt.verify\<close> throws, \<open>date_parse\<close> gives \<open>None\<close> where
  \<^verbatim>\<open>new Date(s)\<close> is the Invalid Date, \<open>qr_toDataURL\<close> gives \<open>None\<close> where the encoder
  rejects; \<open>detect_single_face\<close> gives the descriptor of the detected face, \<open>None\<close>
  when there is none. \<open>math_random\<close> is the value of \<^verbatim>\<open>Math.random()\<close>, a double.
  \<open>email_condition e v\<close> is what Mongoose makes of the filter \<^verbatim>\<open>{ email: v }\<close> when \<open>v\<close> is
  not a string: the documents that the value cast to the String path, or the query
  operators of an object, select, and \<open>None\<close> where the cast throws and the query
  rejects.
\<close>

section \<open>Server state\<close>

text \<open>
  The two Mongo collections (documents in insertion order), whether the database
  connection is up (\<^verbatim>\<open>mongoose.connect\<close> failures are only logged, and every query on
  a dead connection rejects), the own properties of \<^verbatim>\<open>otpStore\<close> and the pending
  \<^verbatim>\<open>setTimeout\<close> callbacks, each with its due time and the key it deletes.

  The versions and connection options of Mongoose and of the driver are not fixed by
  the repository, and with them how a filter condition on an \<^verbatim>\<open>undefined\<close> value is
  treated: \<open>drops_undefined\<close> says whether such a condition is left out of the query, or
  sent as null, which matches the documents without that property.
\<close>

record state =
  users :: "obj list"
  tickets :: "obj list"
  connected :: bool
  drops_undefined :: bool
  otpStore :: "(string \<times> string) list"
  timers :: "(int \<times> string) list"

section \<open>One-time codes\<close>

text \<open>
  JavaScript numbers are IEEE 754 binary64 values (doubles), and \<^verbatim>\<open>*\<close> and \<^verbatim>\<open>+\<close> give the
  exact product and sum rounded to the nearest double, a tie going to the even
  significand. A double is a real here. The doubles of the binade with exponent \<open>e\<close>,
  from \<open>2 powi e\<close> up to \<open>2 powi (e + 1)\<close>, are the integer multiples of \<open>2 powi (e - 52)\<close>;
  the exponent is at least -1022, below which the subnormal doubles keep the spacing
  \<open>2 powi (- 1074)\<close>, and at most 1023. Overflow to \<^verbatim>\<open>Infinity\<close>, \<^verbatim>\<open>NaN\<close> and the sign
  of zero are left out: the values of line 155 are finite, not negative and below
  \<open>2 powi 20\<close>.
\<close>

definition round_half_even :: "real \<Rightarrow> int" where
  "round_half_even x =
     (let f = \<lfloor>x\<rfloor>; d = x - of_int f
      in if d < 1 / 2 then f else if 1 / 2 < d then f + 1 else if even f then f else f + 1)"

text \<open>
  The exponent of the binade of \<open>x\<close>: the largest \<open>e\<close> from -1021 to 1023 with
  \<open>2 powi e \<le> \<bar>x\<bar>\<close>, searched downwards, and -1022 when there is none.
\<close>

fun binade :: "nat \<Rightarrow> real \<Rightarrow> int" where
  "binade 0 x = - 1022"
| "binade (Suc n) x = (if 2 powi (int n - 1021) \<le> x then int n - 1021 else binade n x)"

definition exponent :: "real \<Rightarrow> int" where
  "exponent x = binade 2045 \<bar>x\<bar>"

text \<open>Rounding a real to the nearest double, and the reals that are doubles.\<close>

definition to_double :: "real \<Rightarrow> real" where
  "to_double x =
     of_int (round_half_even (x / 2 powi (exponent x - 52))) * 2 powi (exponent x - 52)"

definition is_double :: "real \<Rightarrow> bool" where
  "is_double x = (to_double x = x)"

text \<open>
  Line 155: \<^verbatim>\<open>Math.floor(100000 + Math.random() * 900000)\<close>. The product is rounded,
  then the sum is rounded; \<^verbatim>\<open>Math.floor\<close> of a double is exact.
\<close>

definition generate_otp :: "real \<Rightarrow> int" where
  "generate_otp r = \<lfloor>to_double (100000 + to_double (r * 900000))\<rfloor>"

text \<open>
  \<^verbatim>\<open>otpStore\<close> is a plain object literal \<^verbatim>\<open>{}\<close>, so a read \<^verbatim>\<open>otpStore[k]\<close> that finds
  no own property continues to \<^verbatim>\<open>Object.prototype\<close>, whose property names are listed
  here; all of them hold functions or objects, which are truthy and never \<^verbatim>\<open>===\<close> a string.
\<close>

definition object_prototype_keys :: "string list" where
  "object_prototype_keys =
     [''constructor'', ''__defineGetter__'', ''__defineSetter__'', ''hasOwnProperty'',
      ''__lookupGetter__'', ''__lookupSetter__'', ''isPrototypeOf'',
      ''propertyIsEnumerable'', ''toString'', ''valueOf'', ''__proto__'',
      ''toLocaleString'']"

datatype lookup = Own string | Inherited | Undefined

definition otp_read :: "(string \<times> string) list \<Rightarrow> string \<Rightarrow> lookup" where
  "otp_read store k =
     (case map_of store k of
        Some v \<Rightarrow> Own v
      | None \<Rightarrow> if k \<in> set object_prototype_keys then Inherited else Undefined)"

fun lookup_truthy :: "lookup \<Rightarrow> bool" where
  "lookup_truthy (Own v) = (v \<noteq> [])"
| "lookup_truthy Inherited = True"
| "lookup_truthy Undefined = False"

text \<open>\<^verbatim>\<open>delete otpStore[k]\<close> removes an own property only.\<close>

definition otp_delete :: "string \<Rightarrow> (string \<times> string) list \<Rightarrow> (string \<times> string) list" where
  "otp_delete k store = AList.delete k store"

text \<open>\<^verbatim>\<open>s.startsWith('+')\<close>\<close>

fun startsWith_plus :: "string \<Rightarrow> bool" where
  "startsWith_plus [] = False"
| "startsWith_plus (c # cs) = (c = CHR ''+'')"

text \<open>
  \<^verbatim>\<open>POST /send-otp\<close> (lines 145-180). The phone number is the body's string field, when
  present. The assignment \<^verbatim>\<open>otpStore[phoneNumber] = ...\<close> writes an own property: the key
  starts with \<^verbatim>\<open>+\<close>, so it is not \<^verbatim>\<open>__proto__\<close>.
\<close>

definition otp_text :: "int \<Rightarrow> string" where
  "otp_text otp = ''Your OTP code is: '' @ string_of_int otp"

definition sendOtp :: "env \<Rightarrow> string option \<Rightarrow> state \<Rightarrow> response \<times> state" where
  "sendOtp e phoneNumber s =
     (case phoneNumber of
        None \<Rightarrow>
          (failure 400 ''Valid phone number with country code is required (e.g., +91XXXXXXXXXX)'', s)
      | Some p \<Rightarrow>
          if p = [] \<or> \<not> startsWith_plus p then
            (failure 400 ''Valid phone number with country code is required (e.g., +91XXXXXXXXXX)'', s)
          else
            let otp = generate_otp (math_random e) in
            (case twilio_create e p (otp_text otp) of
               Rejected err \<Rightarrow>
                 (\<lparr>status = 500,
                   body = [(''success'', Bool False), (''message'', Str ''Error sending OTP.''),
                           (''error'', Str err)]\<rparr>, s)
             | Delivered \<Rightarrow>
                 (\<lparr>status = 200,
                   body = literal
                     [(''success'', Some (Bool True)),
                      (''message'', Some (Str ''OTP sent successfully!'')),
                      (''otp'', if node_env e = Some ''development'' then Some (Num otp) else None)]\<rparr>,
                  s\<lparr>otpStore := AList.update p (string_of_int otp) (otpStore s),
                    timers := timers s @ [(date_now e 0 + 5 * 60 * 1000, p)]\<rparr>)))"

text \<open>
  The timer callback \<^verbatim>\<open>() => delete otpStore[phoneNumber]\<close>, and the event loop running
  every callback that is due at time \<open>t\<close>, oldest registration first.
\<close>

fun run_timers :: "int \<Rightarrow> (int \<times> string) list \<Rightarrow> (string \<times> string) list \<Rightarrow>
    (int \<times> string) list \<times> (string \<times> string) list" where
  "run_timers t [] store = ([], store)"
| "run_timers t ((due, k) # ts) store =
     (if due \<le> t then run_timers t ts (otp_delete k store)
      else (let (ts', store') = run_timers t ts store in ((due, k) # ts', store')))"

definition advance :: "int \<Rightarrow> state \<Rightarrow> state" where
  "advance t s =
     (let (ts', store') = run_timers t (timers s) (otpStore s)
      in s\<lparr>timers := ts', otpStore := store'\<rparr>)"

text \<open>
  \<^verbatim>\<open>POST /verify-otp\<close> (lines 182-212). The submitted code is a JSON scalar (a string, or
  the number the development response of \<^verbatim>\<open>/send-otp\<close> carries).
\<close>

definition verifyOtp :: "env \<Rightarrow> string option \<Rightarrow> jsval option \<Rightarrow> state \<Rightarrow> response \<times> state" where
  "verifyOtp e phoneNumber otp s =
     (case (phoneNumber, otp) of
        (Some p, Some code) \<Rightarrow>
          if p = [] \<or> \<not> truthy (Some code) then
            (failure 400 ''Phone number and OTP are required.'', s)
          else if \<not> lookup_truthy (otp_read (otpStore s) p) then
            (failure 400 ''OTP expired or not requested.'', s)
          else if otp_read (otpStore s) p = Own (toString code) then
            (\<lparr>status = 200,
              body = [(''success'', Bool True), (''message'', Str ''OTP verified successfully!''),
                      (''token'', Str (jwt_sign e [(''phoneNumber'', Str p)]))]\<rparr>,
             s\<lparr>otpStore := otp_delete p (otpStore s)\<rparr>)
          else
            (failure 400 ''Invalid OTP.'', s)
      | _ \<Rightarrow> (failure 400 ''Phone number and OTP are required.'', s))"

section \<open>Mongoose models\<close>

text \<open>
  \<^verbatim>\<open>userSchema\<close> (lines 46-53) and \<^verbatim>\<open>ticketSchema\<close> (lines 56-67). Schemas are strict:
  a model constructor keeps the properties of its argument that are schema paths and
  drops every other one, then fills in the defaults. Mongoose's own version property is
  left out of the documents.
\<close>

definition user_paths :: "string list" where
  "user_paths = [''name'', ''email'', ''password'', ''phoneNumber'', ''faceImagePath'', ''createdAt'']"

definition ticket_paths :: "string list" where
  "ticket_paths =
     [''ticketId'', ''userId'', ''source'', ''destination'', ''phoneNumber'', ''qrCode'',
      ''aadhaarNumber'', ''status'', ''bookingDate'', ''createdAt'']"

definition strict :: "string list \<Rightarrow> obj \<Rightarrow> obj" where
  "strict paths init = filter (\<lambda>(k, v). k \<in> set paths) init"

definition with_default :: "string \<Rightarrow> jsval \<Rightarrow> obj \<Rightarrow> obj" where
  "with_default k v d = (if field d k = None then d @ [(k, v)] else d)"

definition new_User :: "nat \<Rightarrow> int \<Rightarrow> obj \<Rightarrow> obj" where
  "new_User oid now init =
     with_default ''createdAt'' (DateV now) ((''_id'', ObjId oid) # strict user_paths init)"

definition new_Ticket :: "nat \<Rightarrow> int \<Rightarrow> obj \<Rightarrow> obj" where
  "new_Ticket oid now init =
     with_default ''createdAt'' (DateV now)
       (with_default ''status'' (Str ''active'')
          ((''_id'', ObjId oid) # strict ticket_paths init))"

text \<open>A required String path: present, a string, not empty.\<close>

definition required_string :: "obj \<Rightarrow> string \<Rightarrow> bool" where
  "required_string d k = (case field d k of Some (Str s) \<Rightarrow> s \<noteq> [] | _ \<Rightarrow> False)"

definition user_valid :: "obj \<Rightarrow> bool" where
  "user_valid d =
     (required_string d ''name'' \<and> required_string d ''email'' \<and> required_string d ''password'')"

definition ticket_valid :: "obj \<Rightarrow> bool" where
  "ticket_valid d =
     (required_string d ''ticketId'' \<and> required_string d ''source'' \<and>
      required_string d ''destination'' \<and> required_string d ''phoneNumber'' \<and>
      required_string d ''qrCode'' \<and>
      (case field d ''bookingDate'' of Some (DateV t) \<Rightarrow> True | _ \<Rightarrow> False) \<and>
      field d ''status'' \<in> {Some (Str ''active''), Some (Str ''used''), Some (Str ''expired'')})"

text \<open>
  Saving a new document: it rejects on a dead connection, on a validation error and on
  a duplicate key of a unique index. The user collection has unique indexes on
  \<^verbatim>\<open>email\<close> and on \<^verbatim>\<open>phoneNumber\<close> (a document without a phone number is indexed under
  null, like every other such document); the ticket collection has one on \<^verbatim>\<open>ticketId\<close>.
\<close>

definition duplicate_key :: "string \<Rightarrow> obj \<Rightarrow> obj list \<Rightarrow> bool" where
  "duplicate_key k d coll = list_ex (\<lambda>x. field x k = field d k) coll"

definition save_user :: "obj \<Rightarrow> state \<Rightarrow> state option" where
  "save_user d s =
     (if connected s \<and> user_valid d \<and> \<not> duplicate_key ''_id'' d (users s) \<and>
         \<not> duplicate_key ''email'' d (users s) \<and> \<not> duplicate_key ''phoneNumber'' d (users s)
      then Some (s\<lparr>users := users s @ [d]\<rparr>)
      else None)"

definition save_ticket :: "obj \<Rightarrow> state \<Rightarrow> state option" where
  "save_ticket d s =
     (if connected s \<and> ticket_valid d \<and> \<not> duplicate_key ''_id'' d (tickets s) \<and>
         \<not> duplicate_key ''ticketId'' d (tickets s)
      then Some (s\<lparr>tickets := tickets s @ [d]\<rparr>)
      else None)"

text \<open>
  \<^verbatim>\<open>Model.findOne(filter)\<close>: the first document meeting every condition of the filter,
  \<open>None\<close> for \<^verbatim>\<open>null\<close>; the outer \<open>None\<close> is the rejection on a dead connection.
\<close>

definition satisfies :: "bool \<Rightarrow> obj \<Rightarrow> string \<times> jsval option \<Rightarrow> bool" where
  "satisfies dropped d c = (case c of (k, v) \<Rightarrow> (v = None \<and> dropped) \<or> field d k = v)"

definition findOne :: "state \<Rightarrow> obj list \<Rightarrow> (string \<times> jsval option) list \<Rightarrow> obj option option" where
  "findOne s coll conds =
     (if connected s then
        Some (find (\<lambda>d. list_all (satisfies (drops_undefined s) d) conds) coll)
      else None)"

text \<open>
  \<^verbatim>\<open>User.findById(id)\<close>; an \<^verbatim>\<open>undefined\<close> identifier is looked up as null, and no
  document has a null identifier.
\<close>

definition findById :: "state \<Rightarrow> obj list \<Rightarrow> jsval option \<Rightarrow> obj option option" where
  "findById s coll i =
     (if connected s then
        Some (case i of None \<Rightarrow> None | Some v \<Rightarrow> find (\<lambda>d. field d ''_id'' = Some v) coll)
      else None)"

section \<open>Registration and login\<close>

text \<open>
  \<^verbatim>\<open>POST /register\<close> (lines 215-274). The three body fields are strings when present.
\<close>

definition register :: "env \<Rightarrow> string option \<Rightarrow> string option \<Rightarrow> string option \<Rightarrow> state \<Rightarrow>
    response \<times> state" where
  "register e name email password s =
     (case (name, email, password) of
        (Some n, Some m, Some pw) \<Rightarrow>
          if n = [] \<or> m = [] \<or> pw = [] then (failure 400 ''All fields are required.'', s)
          else
            (case findOne s (users s) [(''email'', Some (Str m))] of
               None \<Rightarrow> (failure 500 ''Registration failed. Please try again.'', s)
             | Some (Some existingUser) \<Rightarrow>
                 (failure 400 ''Email or phone number already registered.'', s)
             | Some None \<Rightarrow>
                 let hashedPassword = bcrypt_hash e pw;
                     user = new_User (new_object_id e) (date_now e 0)
                              [(''name'', Str n), (''email'', Str m),
                               (''password'', Str hashedPassword)]
                 in (case save_user user s of
                       None \<Rightarrow> (failure 500 ''Registration failed. Please try again.'', s)
                     | Some s' \<Rightarrow>
                         (\<lparr>status = 201,
                           body = literal
                             [(''success'', Some (Bool True)),
                              (''message'', Some (Str ''User registered successfully'')),
                              (''token'', Some (Str (jwt_sign e (literal
                                  [(''userId'', field user ''_id''),
                                   (''email'', field user ''email'')])))),
                              (''user'', Some (Obj (literal
                                  [(''id'', field user ''_id''),
                                   (''name'', field user ''name''),
                                   (''email'', field user ''email'')])))]\<rparr>,
                          s')))
      | _ \<Rightarrow> (failure 400 ''All fields are required.'', s))"

text \<open>
  \<^verbatim>\<open>POST /login\<close> (lines 276-331). \<^verbatim>\<open>express.json()\<close> hands over whatever JSON values
  the body holds, so \<open>email\<close> and \<open>password\<close> are values of any kind: \<open>None\<close> is a field
  that is absent or \<^verbatim>\<open>null\<close>, and an array counts as an object. Line 281 tests
  truthiness only.
\<close>

text \<open>\<^verbatim>\<open>typeof v === 'string'\<close>, with the string.\<close>

fun as_string :: "jsval \<Rightarrow> string option" where
  "as_string (Str x) = Some x"
| "as_string v = None"

text \<open>
  \<^verbatim>\<open>User.findOne({ email })\<close> (line 289): for a string, the first user with that email; for
  any other value, what \<open>email_condition\<close> says.
\<close>

definition find_user_by_email :: "env \<Rightarrow> state \<Rightarrow> jsval \<Rightarrow> obj option option" where
  "find_user_by_email e s m =
     (case as_string m of
        Some a \<Rightarrow> findOne s (users s) [(''email'', Some (Str a))]
      | None \<Rightarrow>
          if connected s then
            (case email_condition e m of
               None \<Rightarrow> None
             | Some selected \<Rightarrow> Some (find selected (users s)))
          else None)"

text \<open>
  \<^verbatim>\<open>bcrypt.compare(password, user.password)\<close> (line 298) is the \<^verbatim>\<open>bcryptjs\<close> function: it
  rejects with "Illegal arguments" unless both arguments are strings, and the \<^verbatim>\<open>catch\<close>
  block answers every rejection with 500.
\<close>

definition login :: "env \<Rightarrow> jsval option \<Rightarrow> jsval option \<Rightarrow> state \<Rightarrow> response \<times> state" where
  "login e email password s =
     (case (email, password) of
        (Some m, Some pw) \<Rightarrow>
          if truthy (Some m) \<and> truthy (Some pw) then
            (case find_user_by_email e s m of
               None \<Rightarrow> (failure 500 ''Login failed. Please try again.'', s)
             | Some None \<Rightarrow> (failure 401 ''Invalid credentials.'', s)
             | Some (Some user) \<Rightarrow>
                 (case (as_string pw, str_prop user ''password'') of
                    (Some given, Some hash) \<Rightarrow>
                      if bcrypt_compare e given hash then
                        (\<lparr>status = 200,
                          body = literal
                            [(''success'', Some (Bool True)),
                             (''message'', Some (Str ''Login successful'')),
                             (''token'', Some (Str (jwt_sign e (literal
                                 [(''userId'', field user ''_id''),
                                  (''email'', field user ''email''),
                                  (''phoneNumber'', field user ''phoneNumber'')])))),
                             (''user'', Some (Obj (literal
                                 [(''id'', field user ''_id''),
                                  (''name'', field user ''name''),
                                  (''email'', field user ''email''),
                                  (''phoneNumber'', field user ''phoneNumber'')])))]\<rparr>,
                         s)
                      else (failure 401 ''Invalid credentials.'', s)
                  | _ \<Rightarrow> (failure 500 ''Login failed. Please try again.'', s)))
          else (failure 400 ''Email and password are required.'', s)
      | _ \<Rightarrow> (failure 400 ''Email and password are required.'', s))"

section \<open>Bearer tokens\<close>

text \<open>\<^verbatim>\<open>h.split(' ')\<close>\<close>

fun split_space :: "string \<Rightarrow> string list" where
  "split_space [] = [[]]"
| "split_space (c # cs) =
     (if c = CHR '' '' then [] # split_space cs
      else (case split_space cs of [] \<Rightarrow> [[c]] | w # ws \<Rightarrow> (c # w) # ws))"

text \<open>
  \<^verbatim>\<open>authenticateToken\<close> (lines 75-86): the answer that ends the request, or the decoded
  payload that becomes \<^verbatim>\<open>req.user\<close>.
\<close>

definition authenticateToken :: "env \<Rightarrow> string option \<Rightarrow> response + obj" where
  "authenticateToken e authorization =
     (let token = (case authorization of
                     None \<Rightarrow> None
                   | Some h \<Rightarrow> (case split_space h of a # b # rest \<Rightarrow> Some b | _ \<Rightarrow> None))
      in case token of
           None \<Rightarrow> Inl (failure 401 ''Access denied. No token provided.'')
         | Some t \<Rightarrow>
             if t = [] then Inl (failure 401 ''Access denied. No token provided.'')
             else (case jwt_verify e t of
                     None \<Rightarrow> Inl (failure 400 ''Invalid token.'')
                   | Some decoded \<Rightarrow> Inr decoded))"

definition authenticated :: "env \<Rightarrow> string option \<Rightarrow> (obj \<Rightarrow> state \<Rightarrow> response \<times> state) \<Rightarrow>
    state \<Rightarrow> response \<times> state" where
  "authenticated e authorization handler s =
     (case authenticateToken e authorization of
        Inl r \<Rightarrow> (r, s)
      | Inr user \<Rightarrow> handler user s)"

section \<open>Face comparison\<close>

text \<open>
  The identifiers in scope inside \<^verbatim>\<open>compareFaces\<close>: the ones that \<^verbatim>\<open>server.js\<close> binds at its
  top level (line 11 binds \<^verbatim>\<open>Canvas\<close> and \<^verbatim>\<open>Image\<close> by destructuring, and nothing binds
  \<^verbatim>\<open>canvas\<close>), the function's own parameters and constants, and the Node.js globals the
  file refers to. Evaluating an identifier that is bound nowhere throws a
  ReferenceError.
\<close>

definition module_bindings :: "string list" where
  "module_bindings =
     [''express'', ''qrcode'', ''jwt'', ''mongoose'', ''bcrypt'', ''cors'', ''path'',
      ''bodyParser'', ''twilio'', ''Canvas'', ''Image'', ''faceapi'', ''fs'', ''app'',
      ''PORT'', ''config'', ''twilioClient'', ''otpStore'', ''userSchema'', ''ticketSchema'',
      ''User'', ''Ticket'', ''authenticateToken'', ''loadFaceModels'', ''compareFaces'']"

definition compareFaces_bindings :: "string list" where
  "compareFaces_bindings =
     [''liveImageBase64'', ''storedImagePath'', ''liveImage'', ''storedImage'',
      ''liveDetection'', ''storedDetection'', ''distance'']"

definition node_globals :: "string list" where
  "node_globals =
     [''require'', ''process'', ''console'', ''Buffer'', ''Math'', ''Date'', ''JSON'',
      ''setTimeout'', ''__dirname'']"

definition resolve :: "string \<Rightarrow> js_error + unit" where
  "resolve x =
     (if x \<in> set compareFaces_bindings \<or> x \<in> set module_bindings \<or> x \<in> set node_globals
      then Inr () else Inl ReferenceError)"

definition and_then :: "'e + 'a \<Rightarrow> ('a \<Rightarrow> 'e + 'b) \<Rightarrow> 'e + 'b" where
  "and_then r f = (case r of Inl err \<Rightarrow> Inl err | Inr v \<Rightarrow> f v)"

text \<open>
  The \<^verbatim>\<open>try\<close> block of \<^verbatim>\<open>compareFaces\<close> (lines 112-137). Its first statement evaluates
  \<^verbatim>\<open>canvas.loadImage(...)\<close>, which reads the identifier \<^verbatim>\<open>canvas\<close> first;
  \<^verbatim>\<open>Buffer.from(undefined, 'base64')\<close> throws a TypeError.
\<close>

definition compareFaces_try :: "env \<Rightarrow> string option \<Rightarrow> string \<Rightarrow> js_error + bool" where
  "compareFaces_try e liveImageBase64 storedImagePath =
     and_then (resolve ''canvas'') (\<lambda>canvas.
     and_then (case liveImageBase64 of
                 None \<Rightarrow> Inl TypeError
               | Some b \<Rightarrow> load_image e (FromBuffer b)) (\<lambda>liveImage.
     and_then (load_image e (FromPath storedImagePath)) (\<lambda>storedImage.
     and_then (detect_single_face e liveImage) (\<lambda>liveDetection.
     and_then (detect_single_face e storedImage) (\<lambda>storedDetection.
       (case (liveDetection, storedDetection) of
          (Some live, Some stored) \<Rightarrow>
            and_then (euclidean_distance e live stored) (\<lambda>distance. Inr (distance < 0.6))
        | _ \<Rightarrow> Inr False))))))"

text \<open>\<^verbatim>\<open>compareFaces\<close> (lines 110-142): the \<^verbatim>\<open>catch\<close> block turns every error into false.\<close>

definition compareFaces :: "env \<Rightarrow> string option \<Rightarrow> string \<Rightarrow> bool" where
  "compareFaces e liveImageBase64 storedImagePath =
     (case compareFaces_try e liveImageBase64 storedImagePath of
        Inl err \<Rightarrow> False
      | Inr isMatch \<Rightarrow> isMatch)"

section \<open>Tickets\<close>

text \<open>\<^verbatim>\<open>n.toString(36).toUpperCase()\<close>\<close>

definition digit36 :: "nat \<Rightarrow> char" where
  "digit36 d = ''0123456789ABCDEFGHIJKLMNOPQRSTUVWXYZ'' ! d"

function base36_nat :: "nat \<Rightarrow> string" where
  "base36_nat n =
     (if n < 36 then [digit36 n] else base36_nat (n div 36) @ [digit36 (n mod 36)])"
  by pat_completeness auto
termination
  by (relation "measure id") auto

declare base36_nat.simps [simp del]

definition base36_upper :: "int \<Rightarrow> string" where
  "base36_upper i =
     (if i < 0 then CHR ''-'' # base36_nat (nat (- i)) else base36_nat (nat i))"

text \<open>
  \<^verbatim>\<open>POST /create-ticket\<close> (lines 375-437), behind \<^verbatim>\<open>authenticateToken\<close>; \<open>user\<close> is
  \<^verbatim>\<open>req.user\<close>. The clock is read for the identifier, for \<^verbatim>\<open>expiresAt\<close> and for the
  default of \<^verbatim>\<open>createdAt\<close>. \<open>qr_toDataURL\<close> stands for \<^verbatim>\<open>JSON.stringify\<close> followed by
  the encoder.
\<close>

definition createTicket :: "env \<Rightarrow> string option \<Rightarrow> string option \<Rightarrow> string option \<Rightarrow>
    string option \<Rightarrow> obj \<Rightarrow> state \<Rightarrow> response \<times> state" where
  "createTicket e source destination phoneNumber bookingDate user s =
     (let userId = field user ''userId'' in
      case (source, destination, phoneNumber, bookingDate) of
        (Some src, Some dst, Some ph, Some bd) \<Rightarrow>
          if src = [] \<or> dst = [] \<or> ph = [] \<or> bd = [] then
            (failure 400 ''All fields are required (source, destination, phoneNumber, bookingDate).'', s)
          else
            let ticketData = literal
                  [(''userId'', userId),
                   (''source'', Some (Str src)),
                   (''destination'', Some (Str dst)),
                   (''phoneNumber'', Some (Str ph)),
                   (''bookingDate'',
                      Some (case date_parse e bd of Some t \<Rightarrow> DateV t | None \<Rightarrow> InvalidDate))]
            in (case qr_toDataURL e ticketData of
                  None \<Rightarrow> (failure 500 ''Failed to create ticket.'', s)
                | Some qrCode \<Rightarrow>
                    let ticketId = ''TKT-'' @ base36_upper (date_now e 0);
                        expiresAt = DateV (date_now e 1 + 24 * 60 * 60 * 1000);
                        ticket = new_Ticket (new_object_id e) (date_now e 2)
                                   ([(''ticketId'', Str ticketId)] @ ticketData @
                                    [(''qrCode'', Str qrCode), (''expiresAt'', expiresAt)])
                    in (case save_ticket ticket s of
                          None \<Rightarrow> (failure 500 ''Failed to create ticket.'', s)
                        | Some s' \<Rightarrow>
                            (\<lparr>status = 201,
                              body = literal
                                [(''success'', Some (Bool True)),
                                 (''message'', Some (Str ''Ticket created successfully'')),
                                 (''ticket'', Some (Obj (literal
                                    [(''ticketId'', Some (Str ticketId)),
                                     (''source'', Some (Str src)),
                                     (''destination'', Some (Str dst)),
                                     (''phoneNumber'', Some (Str ph)),
                                     (''bookingDate'', Some (Str bd)),
                                     (''qrCode'', Some (Str qrCode)),
                                     (''createdAt'', field ticket ''createdAt''),
                                     (''expiresAt'', field ticket ''expiresAt'')])))]\<rparr>,
                             s')))
      | _ \<Rightarrow>
          (failure 400 ''All fields are required (source, destination, phoneNumber, bookingDate).'', s))"

text \<open>
  Saving a loaded ticket after \<^verbatim>\<open>ticket.status = 'used'\<close>: the modified path is written to
  the stored document with the ticket's identifier.
\<close>

definition set_status :: "jsval \<Rightarrow> obj \<Rightarrow> obj" where
  "set_status v d = AList.update ''status'' v d"

definition update_status :: "obj \<Rightarrow> jsval \<Rightarrow> state \<Rightarrow> state option" where
  "update_status ticket v s =
     (if connected s then
        Some (s\<lparr>tickets :=
          map (\<lambda>d. if field d ''_id'' = field ticket ''_id'' then set_status v d else d)
            (tickets s)\<rparr>)
      else None)"

text \<open>
  \<^verbatim>\<open>POST /verify-ticket\<close> (lines 441-488), behind \<^verbatim>\<open>authenticateToken\<close>, with the face
  check as a parameter; the route itself passes \<^verbatim>\<open>compareFaces\<close>.
\<close>

definition verifyTicket_with :: "(string option \<Rightarrow> string \<Rightarrow> bool) \<Rightarrow> string option \<Rightarrow>
    string option \<Rightarrow> obj \<Rightarrow> state \<Rightarrow> response \<times> state" where
  "verifyTicket_with faces qrData faceImage user s =
     (let userId = field user ''userId'' in
      case findOne s (tickets s) [(''qrCode'', map_option Str qrData), (''userId'', userId)] of
        None \<Rightarrow> (failure 500 ''Server error during ticket verification'', s)
      | Some None \<Rightarrow> (failure 404 ''Ticket not found or doesn't belong to user'', s)
      | Some (Some ticket) \<Rightarrow>
          (case findById s (users s) userId of
             None \<Rightarrow> (failure 500 ''Server error during ticket verification'', s)
           | Some owner \<Rightarrow>
               (case (case owner of None \<Rightarrow> None | Some u \<Rightarrow> str_prop u ''faceImagePath'') of
                  None \<Rightarrow> (failure 400 ''User face not registered'', s)
                | Some faceImagePath \<Rightarrow>
                    if faceImagePath = [] then (failure 400 ''User face not registered'', s)
                    else if \<not> faces faceImage faceImagePath then
                      (failure 403 ''Face verification failed'', s)
                    else
                      (case update_status ticket (Str ''used'') s of
                         None \<Rightarrow> (failure 500 ''Server error during ticket verification'', s)
                       | Some s' \<Rightarrow>
                           (\<lparr>status = 200,
                             body = [(''success'', Bool True),
                                     (''message'', Str ''Ticket verified successfully'')]\<rparr>,
                            s')))))"

definition verifyTicket :: "env \<Rightarrow> string option \<Rightarrow> string option \<Rightarrow> obj \<Rightarrow> state \<Rightarrow>
    response \<times> state" where
  "verifyTicket e = verifyTicket_with (compareFaces e)"

text \<open>\<^verbatim>\<open>GET /ticket/:id\<close> (lines 490-510), behind \<^verbatim>\<open>authenticateToken\<close>.\<close>

definition getTicket :: "string \<Rightarrow> obj \<Rightarrow> state \<Rightarrow> response \<times> state" where
  "getTicket ident user s =
     (case findOne s (tickets s) [(''ticketId'', Some (Str ident))] of
        None \<Rightarrow> (failure 500 ''Server error.'', s)
      | Some None \<Rightarrow> (failure 404 ''Ticket not found.'', s)
      | Some (Some ticket) \<Rightarrow>
          (\<lparr>status = 200, body = [(''success'', Bool True), (''ticket'', Obj ticket)]\<rparr>, s))"

text \<open>The three ticket routes as registered on the application.\<close>

definition route_create_ticket :: "env \<Rightarrow> string option \<Rightarrow> string option \<Rightarrow> string option \<Rightarrow>
    string option \<Rightarrow> string option \<Rightarrow> state \<Rightarrow> response \<times> state" where
  "route_create_ticket e authorization source destination phoneNumber bookingDate =
     authenticated e authorization (createTicket e source destination phoneNumber bookingDate)"

definition route_verify_ticket :: "env \<Rightarrow> string option \<Rightarrow> string option \<Rightarrow> string option \<Rightarrow>
    state \<Rightarrow> response \<times> state" where
  "route_verify_ticket e authorization qrData faceImage =
     authenticated e authorization (verifyTicket e qrData faceImage)"

definition route_get_ticket :: "env \<Rightarrow> string option \<Rightarrow> string \<Rightarrow> state \<Rightarrow> response \<times> state" where
  "route_get_ticket e authorization ident =
     authenticated e authorization (getTicket ident)"

section \<open>Example data\<close>

text \<open>
  Concrete collaborators and a concrete database, used to run the handlers: user A
  (identifier 101) has registered a face image and owns three tickets (active, used and
  expired), user B (identifier 102) has no face image and no ticket. The third token is
  one that \<^verbatim>\<open>/verify-otp\<close> issues (line 204): its payload is the phone number alone.
\<close>

definition demo_env :: env where
  "demo_env =
     \<lparr>jwt_sign = (\<lambda>payload. ''signed''),
      jwt_verify = (\<lambda>t.
        if t = ''token-of-1'' then Some [(''userId'', ObjId 101), (''email'', Str ''a@x.com'')]
        else if t = ''token-of-2'' then Some [(''userId'', ObjId 102), (''email'', Str ''b@x.com'')]
        else if t = ''token-of-otp'' then Some [(''phoneNumber'', Str ''+911234567891'')]
        else None),
      bcrypt_hash = (\<lambda>pw. ''salted:'' @ pw),
      bcrypt_compare = (\<lambda>pw h. h = ''salted:'' @ pw),
      twilio_create = (\<lambda>to text. Delivered),
      node_env = None,
      math_random = 1 / 2,
      date_now = (\<lambda>k. 1735689600000 + int k),
      date_parse = (\<lambda>d. if d = ''2025-01-01'' then Some 1735689600000 else None),
      qr_toDataURL = (\<lambda>payload. Some ''data:image/png;base64,QR3''),
      new_object_id = 13,
      load_image = (\<lambda>src. Inr (case src of FromBuffer b \<Rightarrow> 1 | FromPath p \<Rightarrow> 2)),
      detect_single_face = (\<lambda>image. Inr (Some [0, 0])),
      euclidean_distance = (\<lambda>a b. Inr 0),
      email_condition = (\<lambda>v. None)\<rparr>"

definition unreachable_env :: env where
  "unreachable_env = demo_env\<lparr>twilio_create := (\<lambda>to text. Rejected ''unreachable'')\<rparr>"

text \<open>
  Two values of the random source: one at which the sum of line 155 is rounded up
  across an integer, and the largest double below 1.
\<close>

definition rounding_random :: real where
  "rounding_random = 150119987579 / 2 ^ 52"

definition largest_random :: real where
  "largest_random = 1 - 1 / 2 ^ 53"

text \<open>The collaborators 100 seconds later, with another value of the random source.\<close>

definition resend_env :: env where
  "resend_env = demo_env\<lparr>math_random := 1 / 4, date_now := (\<lambda>k. 1735689700000 + int k)\<rparr>"

definition demo_user1 :: obj where
  "demo_user1 =
     [(''_id'', ObjId 101), (''name'', Str ''A''), (''email'', Str ''a@x.com''),
      (''password'', Str ''salted:secret''), (''faceImagePath'', Str ''uploads/face-1.jpg''),
      (''createdAt'', DateV 1735680000000)]"

definition demo_user2 :: obj where
  "demo_user2 =
     [(''_id'', ObjId 102), (''name'', Str ''B''), (''email'', Str ''b@x.com''),
      (''password'', Str ''salted:hidden''), (''phoneNumber'', Str ''+911234567891''),
      (''createdAt'', DateV 1735680000001)]"

definition ticket_of :: "nat \<Rightarrow> string \<Rightarrow> string \<Rightarrow> string \<Rightarrow> obj" where
  "ticket_of oid ident code st =
     [(''_id'', ObjId oid), (''ticketId'', Str ident), (''userId'', ObjId 101),
      (''source'', Str ''X''), (''destination'', Str ''Y''),
      (''phoneNumber'', Str ''+911234567890''), (''bookingDate'', DateV 1735689600000),
      (''qrCode'', Str code), (''status'', Str st), (''createdAt'', DateV 1735680000002)]"

definition demo_state :: state where
  "demo_state =
     \<lparr>users = [demo_user1, demo_user2],
      tickets = [ticket_of 10 ''TKT-A'' ''QR0'' ''active'', ticket_of 11 ''TKT-B'' ''QR1'' ''used'',
                 ticket_of 12 ''TKT-C'' ''QR2'' ''expired''],
      connected = True, drops_undefined = False, otpStore = [], timers = []\<rparr>"

definition empty_state :: state where
  "empty_state =
     \<lparr>users = [], tickets = [], connected = True, drops_undefined = False,
      otpStore = [], timers = []\<rparr>"

text \<open>
  The document that \<^verbatim>\<open>/create-ticket\<close> stores for user A in the example database, with the
  example collaborators.
\<close>

definition created_ticket :: obj where
  "created_ticket =
     [(''_id'', ObjId 13), (''ticketId'', Str ''TKT-M5D4RUO0''), (''userId'', ObjId 101),
      (''source'', Str ''X''), (''destination'', Str ''Y''),
      (''phoneNumber'', Str ''+911234567890''), (''bookingDate'', DateV 1735689600000),
      (''qrCode'', Str ''data:image/png;base64,QR3''), (''status'', Str ''active''),
      (''createdAt'', DateV 1735689600002)]"


text \<open>
  The state after two deliveries of a code to the same number, 100 seconds apart.
\<close>

definition first_sent :: state where
  "first_sent = snd (sendOtp demo_env (Some ''+911234567891'') demo_state)"

definition second_sent :: state where
  "second_sent = snd (sendOtp resend_env (Some ''+911234567891'') first_sent)"

text \<open>
  A ticket that \<^verbatim>\<open>/create-ticket\<close> stored for a caller with a \<^verbatim>\<open>/verify-otp\<close> token: the
  payload has no \<^verbatim>\<open>userId\<close>, so the document has none. The two databases hold it beside
  the tickets of user A, one for each treatment of an \<^verbatim>\<open>undefined\<close> filter value.
\<close>

definition anonymous_ticket :: obj where
  "anonymous_ticket =
     [(''_id'', ObjId 14), (''ticketId'', Str ''TKT-D''),
      (''source'', Str ''X''), (''destination'', Str ''Y''),
      (''phoneNumber'', Str ''+911234567892''), (''bookingDate'', DateV 1735689600000),
      (''qrCode'', Str ''QR4''), (''status'', Str ''active''), (''createdAt'', DateV 1735680000003)]"

definition null_state :: state where
  "null_state = demo_state\<lparr>tickets := tickets demo_state @ [anonymous_ticket]\<rparr>"

definition dropping_state :: state where
  "dropping_state = null_state\<lparr>drops_undefined := True\<rparr>"

text \<open>A face check that reports a match, to run \<open>verifyTicket_with\<close> past the face gate.\<close>

definition always_match :: "string option \<Rightarrow> string \<Rightarrow> bool" where
  "always_match faceImage faceImagePath = True"

section \<open>Rounding to doubles\<close>

lemma round_half_even_le: "x < of_int M + 1 / 2 \<Longrightarrow> round_half_even x \<le> M"
proof -
  assume a: "x < of_int M + 1 / 2"
  have f: "\<lfloor>x\<rfloor> \<le> M" using a by (simp add: floor_le_iff)
  show ?thesis
  proof (cases "\<lfloor>x\<rfloor> = M")
    case True
    then have "x - of_int \<lfloor>x\<rfloor> < 1 / 2" using a by simp
    then show ?thesis using True by (simp add: round_half_even_def Let_def)
  next
    case False
    then have "\<lfloor>x\<rfloor> + 1 \<le> M" using f by simp
    then show ?thesis using f by (simp add: round_half_even_def Let_def)
  qed
qed

lemma round_half_even_ge: "of_int M \<le> x \<Longrightarrow> M \<le> round_half_even x"
proof -
  assume "of_int M \<le> x"
  then have "M \<le> \<lfloor>x\<rfloor>" by (simp add: le_floor_iff)
  then show ?thesis by (simp add: round_half_even_def Let_def)
qed

lemma round_half_even_of_int [simp]: "round_half_even (of_int M) = M"
  by (simp add: round_half_even_def)

lemma pow2_pos [simp]: "0 < (2::real) powi k"
  by (simp add: power_int_def)

lemma pow2_mono: "j \<le> k \<Longrightarrow> (2::real) powi j \<le> 2 powi k"
  by (rule power_int_increasing) simp_all

lemma pow2_strict_mono: "j < k \<Longrightarrow> (2::real) powi j < 2 powi k"
  by (rule power_int_strict_increasing) simp_all

lemma pow2_split: "(2::real) powi (a + b) = 2 powi a * 2 powi b"
  by (rule power_int_add) simp

lemma binade_ge: "- 1022 \<le> binade n x"
  by (induction n) auto

lemma binade_eq:
  "- 1021 \<le> k \<Longrightarrow> k \<le> int n - 1022 \<Longrightarrow> 2 powi k \<le> x \<Longrightarrow> x < 2 powi (k + 1) \<Longrightarrow>
   binade n x = k"
proof (induction n)
  case 0
  then show ?case by simp
next
  case (Suc n)
  show ?case
  proof (cases "k = int n - 1021")
    case True
    then show ?thesis using Suc.prems by simp
  next
    case False
    then have k: "k \<le> int n - 1022" using Suc.prems by simp
    then have "2 powi (k + 1) \<le> (2::real) powi (int n - 1021)" by (intro pow2_mono) simp
    then have "\<not> 2 powi (int n - 1021) \<le> x" using Suc.prems by simp
    then show ?thesis using Suc.IH[OF Suc.prems(1) k Suc.prems(3,4)] by simp
  qed
qed

lemma binade_subnormal: "x < 2 powi (- 1021) \<Longrightarrow> binade n x = - 1022"
proof (induction n)
  case 0
  then show ?case by simp
next
  case (Suc n)
  have "(2::real) powi (- 1021) \<le> 2 powi (int n - 1021)" by (intro pow2_mono) simp
  then show ?case using Suc by simp
qed

lemma binade_le: "x < 2 powi (K + 1) \<Longrightarrow> - 1022 \<le> K \<Longrightarrow> binade n x \<le> K"
proof (induction n)
  case 0
  then show ?case by simp
next
  case (Suc n)
  show ?case
  proof (cases "2 powi (int n - 1021) \<le> x")
    case True
    then have "(2::real) powi (int n - 1021) < 2 powi (K + 1)" using Suc.prems by simp
    then have "int n - 1021 < K + 1"
      using pow2_mono[of "K + 1" "int n - 1021"] by (cases "int n - 1021 < K + 1") auto
    then show ?thesis using True by simp
  next
    case False
    then show ?thesis using Suc by simp
  qed
qed

lemma binade_lower: "binade n x \<noteq> - 1022 \<Longrightarrow> 2 powi (binade n x) \<le> x"
  by (induction n) (auto split: if_splits)

lemma binade_upper: "x < 2 powi (int n - 1021) \<Longrightarrow> x < 2 powi (binade n x + 1)"
proof (induction n)
  case 0
  then show ?case by simp
next
  case (Suc n)
  show ?case
  proof (cases "2 powi (int n - 1021) \<le> x")
    case True
    then show ?thesis using Suc.prems by (simp add: algebra_simps)
  next
    case False
    then show ?thesis using Suc.IH by simp
  qed
qed

lemma binade_at_least:
  "2 powi k \<le> x \<Longrightarrow> - 1021 \<le> k \<Longrightarrow> k \<le> int n - 1022 \<Longrightarrow> k \<le> binade n x"
proof (induction n)
  case 0
  then show ?case by simp
next
  case (Suc n)
  show ?case
  proof (cases "2 powi (int n - 1021) \<le> x")
    case True
    then show ?thesis using Suc.prems by simp
  next
    case False
    have "k \<noteq> int n - 1021" using False Suc.prems by auto
    then show ?thesis using False Suc by simp
  qed
qed

lemma exponent_ge: "- 1022 \<le> exponent x"
  by (simp add: exponent_def binade_ge)

lemma exponent_eq:
  "2 powi k \<le> \<bar>x\<bar> \<Longrightarrow> \<bar>x\<bar> < 2 powi (k + 1) \<Longrightarrow> - 1021 \<le> k \<Longrightarrow> k \<le> 1023 \<Longrightarrow> exponent x = k"
  unfolding exponent_def by (rule binade_eq) simp_all

lemma exponent_le: "\<bar>x\<bar> < 2 powi (K + 1) \<Longrightarrow> - 1022 \<le> K \<Longrightarrow> exponent x \<le> K"
  unfolding exponent_def by (rule binade_le)

lemma exponent_at_least:
  "2 powi k \<le> \<bar>x\<bar> \<Longrightarrow> - 1021 \<le> k \<Longrightarrow> k \<le> 1023 \<Longrightarrow> k \<le> exponent x"
  unfolding exponent_def by (rule binade_at_least) simp_all

lemma exponent_lower: "exponent x \<noteq> - 1022 \<Longrightarrow> 2 powi (exponent x) \<le> \<bar>x\<bar>"
  unfolding exponent_def by (rule binade_lower)

lemma exponent_upper: "\<bar>x\<bar> < 2 powi 1024 \<Longrightarrow> \<bar>x\<bar> < 2 powi (exponent x + 1)"
  unfolding exponent_def using binade_upper[of "\<bar>x\<bar>" 2045] by simp

lemma round_half_even_le_int: "x \<le> of_int M \<Longrightarrow> round_half_even x \<le> M"
proof -
  assume "x \<le> of_int M"
  then have "x < of_int M + 1 / 2" by linarith
  then show ?thesis by (rule round_half_even_le)
qed

lemma pow2_53: "(2::real) powi (e + 1) = 2 ^ 53 * 2 powi (e - 52)"
proof -
  have "(2::real) powi (53 + (e - 52)) = 2 powi 53 * 2 powi (e - 52)" by (rule pow2_split)
  moreover have "53 + (e - 52) = e + 1" by simp
  ultimately show ?thesis by simp
qed

lemma pow2_52: "(2::real) powi e = 2 ^ 52 * 2 powi (e - 52)"
proof -
  have "(2::real) powi (52 + (e - 52)) = 2 powi 52 * 2 powi (e - 52)" by (rule pow2_split)
  then show ?thesis by simp
qed

lemma to_double_eval:
  "2 powi k \<le> \<bar>x\<bar> \<Longrightarrow> \<bar>x\<bar> < 2 powi (k + 1) \<Longrightarrow> - 1021 \<le> k \<Longrightarrow> k \<le> 1023 \<Longrightarrow>
   to_double x = of_int (round_half_even (x / 2 powi (k - 52))) * 2 powi (k - 52)"
  by (simp add: to_double_def exponent_eq)

lemma to_double_le_binade:
  assumes "0 \<le> x" "x < 2 powi 1024"
  shows "to_double x \<le> 2 powi (exponent x + 1)"
proof -
  let ?u = "(2::real) powi (exponent x - 52)"
  have "x < 2 powi (exponent x + 1)" using exponent_upper[of x] assms by simp
  also have "(2::real) powi (exponent x + 1) = 2 ^ 53 * ?u"
    by (rule pow2_53)
  finally have "x / ?u < 2 ^ 53"
    by (simp add: field_simps)
  then have "x / ?u \<le> of_int (2 ^ 53)"
    by simp
  then have "round_half_even (x / ?u) \<le> 2 ^ 53" by (rule round_half_even_le_int)
  then have "of_int (round_half_even (x / ?u)) * ?u \<le> of_int (2 ^ 53) * ?u"
    by (intro mult_right_mono) (simp_all add: of_int_le_iff[symmetric] del: of_int_le_iff)
  then show ?thesis
    using pow2_53[of "exponent x"] by (simp add: to_double_def)
qed

lemma to_double_ge_binade:
  assumes "2 powi (exponent x) \<le> x"
  shows "2 powi (exponent x) \<le> to_double x"
proof -
  let ?u = "(2::real) powi (exponent x - 52)"
  have s: "(2::real) powi (exponent x) = 2 ^ 52 * ?u"
    by (rule pow2_52)
  then have "of_int (2 ^ 52) \<le> x / ?u" using assms by (simp add: field_simps)
  then have "2 ^ 52 \<le> round_half_even (x / ?u)" by (rule round_half_even_ge)
  then have "of_int (2 ^ 52) * ?u \<le> of_int (round_half_even (x / ?u)) * ?u"
    by (intro mult_right_mono) (simp_all add: of_int_le_iff[symmetric] del: of_int_le_iff)
  then show ?thesis using s by (simp add: to_double_def)
qed

lemma to_double_le_grid:
  assumes "0 \<le> x" and "x < (of_int M + 1 / 2) * 2 powi (k - 52)" and "x < 2 powi (k + 1)"
    and "2 ^ 52 \<le> M" and "- 1022 \<le> k" and "k \<le> 1023"
  shows "to_double x \<le> of_int M * 2 powi (k - 52)"
proof -
  have e: "exponent x \<le> k" using assms(1,3,5) by (intro exponent_le) simp_all
  show ?thesis
  proof (cases "exponent x = k")
    case True
    have "x / 2 powi (k - 52) < of_int M + 1 / 2" using assms(2) by (simp add: field_simps)
    then have "round_half_even (x / 2 powi (k - 52)) \<le> M" by (rule round_half_even_le)
    then have "of_int (round_half_even (x / 2 powi (k - 52))) * 2 powi (k - 52) \<le>
        of_int M * (2::real) powi (k - 52)"
      by (intro mult_right_mono) simp_all
    then show ?thesis using True by (simp add: to_double_def)
  next
    case False
    then have l: "exponent x + 1 \<le> k" using e by simp
    have "x < 2 powi 1024"
      using assms(3,6) pow2_mono[of "k + 1" 1024] by simp
    then have "to_double x \<le> 2 powi (exponent x + 1)" using assms(1) by (rule to_double_le_binade[rotated])
    also have "\<dots> \<le> 2 powi k" using l by (rule pow2_mono)
    also have "\<dots> = of_int (2 ^ 52) * 2 powi (k - 52)"
      using pow2_52[of k] by simp
    also have "\<dots> \<le> of_int M * 2 powi (k - 52)"
      using assms(4) by (intro mult_right_mono) (simp_all add: of_int_le_iff[symmetric] del: of_int_le_iff)
    finally show ?thesis .
  qed
qed

lemma to_double_ge_grid:
  assumes "of_int M * 2 powi (k - 52) \<le> x" and "2 powi k \<le> x" and "x < 2 powi 1024"
    and "M \<le> 2 ^ 53" and "- 1021 \<le> k" and "k \<le> 1023"
  shows "of_int M * 2 powi (k - 52) \<le> to_double x"
proof -
  have x: "0 < x" using assms(2) pow2_pos[of k] by linarith
  have e: "k \<le> exponent x" using assms(2,5,6) x by (intro exponent_at_least) simp_all
  show ?thesis
  proof (cases "exponent x = k")
    case True
    have "of_int M \<le> x / 2 powi (k - 52)" using assms(1) by (simp add: field_simps)
    then have "M \<le> round_half_even (x / 2 powi (k - 52))" by (rule round_half_even_ge)
    then have "of_int M * (2::real) powi (k - 52) \<le>
        of_int (round_half_even (x / 2 powi (k - 52))) * 2 powi (k - 52)"
      by (intro mult_right_mono) simp_all
    then show ?thesis using True by (simp add: to_double_def)
  next
    case False
    then have l: "k + 1 \<le> exponent x" using e by simp
    then have "exponent x \<noteq> - 1022" using assms(5) by simp
    then have "2 powi (exponent x) \<le> x" using exponent_lower[of x] x by simp
    then have g: "2 powi (exponent x) \<le> to_double x" by (rule to_double_ge_binade)
    have "of_int M * 2 powi (k - 52) \<le> of_int (2 ^ 53) * (2::real) powi (k - 52)"
      using assms(4) by (intro mult_right_mono) (simp_all add: of_int_le_iff[symmetric] del: of_int_le_iff)
    also have "\<dots> = 2 powi (k + 1)"
      using pow2_53[of k] by simp
    also have "\<dots> \<le> 2 powi (exponent x)" using l by (rule pow2_mono)
    finally show ?thesis using g by simp
  qed
qed

lemma to_double_0 [simp]: "to_double 0 = 0"
  by (simp add: to_double_def round_half_even_def)

lemma to_double_nonneg: "0 \<le> x \<Longrightarrow> 0 \<le> to_double x"
proof -
  assume "0 \<le> x"
  then have "of_int 0 \<le> x / 2 powi (exponent x - 52)" by simp
  then have "0 \<le> round_half_even (x / 2 powi (exponent x - 52))" by (rule round_half_even_ge)
  then show ?thesis by (simp add: to_double_def)
qed

lemma pow2_neg: "(2::real) powi (- numeral n) = 1 / 2 ^ numeral n"
  by (simp add: power_int_minus_divide)

lemma double_below_one:
  assumes "is_double r" "0 \<le> r" "r < 1"
  shows "r \<le> 1 - 1 / 2 ^ 53"
proof -
  let ?e = "exponent r"
  let ?m = "round_half_even (r / 2 powi (?e - 52))"
  have r: "r = of_int ?m * 2 powi (?e - 52)"
    using assms(1) by (simp add: is_double_def to_double_def)
  have e: "?e \<le> - 1" using assms(2,3) by (intro exponent_le) simp_all
  show ?thesis
  proof (cases "?e = - 1")
    case True
    then have u: "r = of_int ?m / 2 ^ 53" using r by (simp add: pow2_neg)
    then have "of_int ?m < (2::real) ^ 53" using assms(3) by (simp add: field_simps)
    then have "?m < 2 ^ 53" by (simp add: of_int_less_iff[symmetric] del: of_int_less_iff)
    then have "?m \<le> 2 ^ 53 - 1" by simp
    then have "(of_int ?m :: real) \<le> 2 ^ 53 - 1"
      by (simp add: of_int_le_iff[symmetric] del: of_int_le_iff)
    then show ?thesis by (subst u) (simp add: field_simps)
  next
    case False
    then have "?e + 1 \<le> - 1" using e by simp
    then have "(2::real) powi (?e + 1) \<le> 2 powi (- 1)" by (rule pow2_mono)
    moreover have "\<bar>r\<bar> < 2 powi (?e + 1)"
      using assms(2,3) by (intro exponent_upper) simp
    ultimately have "r < 1 / 2" using assms(2) by simp
    then show ?thesis by simp
  qed
qed

lemma product_rounds_below:
  assumes "0 \<le> r" "r \<le> 1 - 1 / 2 ^ 53"
  shows "0 \<le> to_double (r * 900000)" and "to_double (r * 900000) \<le> 900000 - 1 / 2 ^ 33"
proof -
  show "0 \<le> to_double (r * 900000)" using assms(1) by (intro to_double_nonneg) simp
  have "to_double (r * 900000) \<le> of_int (900000 * 2 ^ 33 - 1) * 2 powi (19 - 52)"
  proof (rule to_double_le_grid)
    show "0 \<le> r * 900000" using assms(1) by simp
    show "r * 900000 < (of_int (900000 * 2 ^ 33 - 1) + 1 / 2) * 2 powi (19 - 52)"
      using assms(2) by (simp add: pow2_neg field_simps)
    show "r * 900000 < 2 powi (19 + 1)" using assms(2) by simp
  qed simp_all
  then show "to_double (r * 900000) \<le> 900000 - 1 / 2 ^ 33"
    by (simp add: pow2_neg field_simps)
qed

lemma sum_rounds_within:
  assumes "0 \<le> y" "y \<le> 900000 - 1 / 2 ^ 33"
  shows "100000 \<le> to_double (100000 + y)" and "to_double (100000 + y) \<le> 1000000 - 1 / 2 ^ 33"
proof -
  have "of_int (100000 * 2 ^ 36) * 2 powi (16 - 52) \<le> to_double (100000 + y)"
  proof (rule to_double_ge_grid)
    show "of_int (100000 * 2 ^ 36) * 2 powi (16 - 52) \<le> 100000 + y"
      using assms(1) by (simp add: pow2_neg)
    show "2 powi 16 \<le> 100000 + y" using assms(1) by simp
    show "100000 + y < 2 powi 1024"
    proof -
      have "100000 + y < 2 powi 20" using assms(2) by simp
      also have "(2::real) powi 20 \<le> 2 powi 1024" by (rule pow2_mono) simp
      finally show ?thesis .
    qed
  qed simp_all
  then show "100000 \<le> to_double (100000 + y)" by (simp add: pow2_neg)
  have "to_double (100000 + y) \<le> of_int (1000000 * 2 ^ 33 - 1) * 2 powi (19 - 52)"
  proof (rule to_double_le_grid)
    show "0 \<le> 100000 + y" using assms(1) by simp
    show "100000 + y < (of_int (1000000 * 2 ^ 33 - 1) + 1 / 2) * 2 powi (19 - 52)"
      using assms(2) by (simp add: pow2_neg field_simps)
    show "100000 + y < 2 powi (19 + 1)" using assms(2) by simp
  qed simp_all
  then show "to_double (100000 + y) \<le> 1000000 - 1 / 2 ^ 33"
    by (simp add: pow2_neg field_simps)
qed

lemma to_double_exact:
  assumes "x = of_int m * 2 powi (k - 52)" and "2 powi k \<le> \<bar>x\<bar>" and "\<bar>x\<bar> < 2 powi (k + 1)"
    and "- 1021 \<le> k" and "k \<le> 1023"
  shows "to_double x = x"
proof -
  have "x / 2 powi (k - 52) = of_int m" using assms(1) by simp
  then show ?thesis using to_double_eval[OF assms(2-5)] assms(1) by simp
qed

lemma round_half_even_near:
  assumes "of_int M - 1 / 2 < x" and "x < of_int M + 1 / 2"
  shows "round_half_even x = M"
proof -
  have "round_half_even x \<le> M" using assms(2) by (rule round_half_even_le)
  moreover have "M \<le> round_half_even x"
  proof (cases "of_int M \<le> x")
    case True
    then show ?thesis by (rule round_half_even_ge)
  next
    case False
    then have f: "\<lfloor>x\<rfloor> = M - 1" using assms(1) by (simp add: floor_eq_iff) 
    then have "1 / 2 < x - of_int \<lfloor>x\<rfloor>" using assms(1) by simp
    then show ?thesis using f by (simp add: round_half_even_def Let_def)
  qed
  ultimately show ?thesis by simp
qed

text \<open>The example values of the random source are doubles, and so is what line 155 makes of them.\<close>

lemma is_double_half: "is_double (1 / 2)"
  unfolding is_double_def
  by (rule to_double_exact[where m = "2 ^ 52" and k = "- 1"]) (simp_all add: pow2_neg)

lemma is_double_quarter: "is_double (1 / 4)"
  unfolding is_double_def
  by (rule to_double_exact[where m = "2 ^ 52" and k = "- 2"]) (simp_all add: pow2_neg)

lemma is_double_rounding: "is_double rounding_random"
  unfolding is_double_def rounding_random_def
  by (rule to_double_exact[where m = "150119987579 * 2 ^ 15" and k = "- 15"])
     (simp_all add: pow2_neg)

lemma is_double_largest: "is_double largest_random"
  unfolding is_double_def largest_random_def
  by (rule to_double_exact[where m = "2 ^ 53 - 1" and k = "- 1"]) (simp_all add: pow2_neg)

lemma to_double_450000: "to_double 450000 = 450000"
  by (rule to_double_exact[where m = "450000 * 2 ^ 34" and k = 18]) (simp_all add: pow2_neg)

lemma to_double_550000: "to_double 550000 = 550000"
  by (rule to_double_exact[where m = "550000 * 2 ^ 33" and k = 19]) (simp_all add: pow2_neg)

lemma to_double_225000: "to_double 225000 = 225000"
  by (rule to_double_exact[where m = "225000 * 2 ^ 35" and k = 17]) (simp_all add: pow2_neg)

lemma to_double_325000: "to_double 325000 = 325000"
  by (rule to_double_exact[where m = "325000 * 2 ^ 34" and k = 18]) (simp_all add: pow2_neg)

lemma generate_otp_half: "generate_otp (1 / 2) = 550000"
  by (simp add: generate_otp_def to_double_450000 to_double_550000)

lemma generate_otp_quarter: "generate_otp (1 / 4) = 325000"
  by (simp add: generate_otp_def to_double_225000 to_double_325000)

text \<open>
  At \<open>rounding_random\<close> the product is exact and the sum is rounded up to 100030, where
  the exact sum lies below it.
\<close>

lemma product_rounding: "to_double (rounding_random * 900000) = rounding_random * 900000"
  unfolding rounding_random_def
  by (rule to_double_exact[where m = "8444249301318750" and k = 4]) (simp_all add: pow2_neg)

lemma sum_rounding: "to_double (100000 + rounding_random * 900000) = 100030"
proof -
  let ?x = "100000 + rounding_random * 900000"
  have "to_double ?x = of_int (round_half_even (?x / 2 powi (16 - 52))) * 2 powi (16 - 52)"
    by (rule to_double_eval) (simp_all add: rounding_random_def)
  moreover have "round_half_even (?x / 2 powi (16 - 52)) = 100030 * 2 ^ 36"
    by (rule round_half_even_near) (simp_all add: pow2_neg rounding_random_def)
  ultimately show ?thesis by (simp add: pow2_neg)
qed

lemma generate_otp_rounding: "generate_otp rounding_random = 100030"
  unfolding generate_otp_def product_rounding sum_rounding by simp

lemma exact_rounding: "\<lfloor>100000 + rounding_random * 900000\<rfloor> = 100029"
  by (simp add: floor_eq_iff rounding_random_def)

text \<open>
  At the largest double below 1 the product is rounded down to the double before 900000,
  and the sum is exact.
\<close>

lemma product_largest: "to_double (largest_random * 900000) = 900000 - 1 / 2 ^ 33"
proof -
  let ?x = "largest_random * 900000"
  have "to_double ?x = of_int (round_half_even (?x / 2 powi (19 - 52))) * 2 powi (19 - 52)"
    by (rule to_double_eval) (simp_all add: largest_random_def)
  moreover have "round_half_even (?x / 2 powi (19 - 52)) = 900000 * 2 ^ 33 - 1"
    by (rule round_half_even_near) (simp_all add: pow2_neg largest_random_def)
  ultimately show ?thesis by (simp add: pow2_neg)
qed

lemma sum_largest: "to_double (100000 + (900000 - 1 / 2 ^ 33)) = 1000000 - 1 / 2 ^ 33"
  by (rule trans[OF to_double_exact[where m = "1000000 * 2 ^ 33 - 1" and k = 19]])
     (simp_all add: pow2_neg)

lemma generate_otp_largest: "generate_otp largest_random = 999999"
  unfolding generate_otp_def product_largest sum_largest by (simp add: floor_eq_iff)

lemma string_of_int_examples:
  "string_of_int 550000 = ''550000''" "string_of_int 325000 = ''325000''"
  "string_of_int 100030 = ''100030''" "string_of_int 999999 = ''999999''"
  by (simp_all add: string_of_int_def string_of_nat.simps)

section \<open>The generated code has six digits\<close>

lemma string_of_nat_six:
  assumes "100000 \<le> n" "n \<le> 999999"
  shows "length (string_of_nat n) = 6"
proof -
  have "\<not> n < 10" "\<not> n div 10 < 10" "\<not> n div 10 div 10 < 10"
    "\<not> n div 10 div 10 div 10 < 10" "\<not> n div 10 div 10 div 10 div 10 < 10"
    "n div 10 div 10 div 10 div 10 div 10 < 10"
    using assms by (simp_all add: div_mult2_eq[symmetric]; arith)+
  then show ?thesis
    by (simp add: string_of_nat.simps[of n] string_of_nat.simps[of "n div 10"]
        string_of_nat.simps[of "n div 10 div 10"]
        string_of_nat.simps[of "n div 10 div 10 div 10"]
        string_of_nat.simps[of "n div 10 div 10 div 10 div 10"]
        string_of_nat.simps[of "n div 10 div 10 div 10 div 10 div 10"])
qed

lemma decimal_digit: "(d::nat) < 10 \<Longrightarrow> ''0123456789'' ! d \<in> set ''0123456789''"
  by (rule nth_mem) simp

lemma digits_string_of_nat: "list_all (\<lambda>c. c \<in> set ''0123456789'') (string_of_nat n)"
proof (induction n rule: string_of_nat.induct)
  case (1 n)
  show ?case
  proof (cases "n < 10")
    case True
    then show ?thesis
      using decimal_digit[of n] by (subst string_of_nat.simps) simp
  next
    case False
    then show ?thesis
      using 1 decimal_digit[of "n mod 10"] by (subst string_of_nat.simps) simp
  qed
qed

lemma generate_otp_range:
  assumes "is_double r" "0 \<le> r" "r < 1"
  shows "100000 \<le> generate_otp r" "generate_otp r \<le> 999999"
proof -
  have r: "r \<le> 1 - 1 / 2 ^ 53" using assms by (rule double_below_one)
  note p = product_rounds_below[OF assms(2) r]
  note z = sum_rounds_within[OF p]
  show "100000 \<le> generate_otp r"
    using z(1) by (simp add: generate_otp_def le_floor_iff)
  have "to_double (100000 + to_double (r * 900000)) < 1000000"
    using z(2) by (simp add: field_simps) 
  then show "generate_otp r \<le> 999999"
    by (simp add: generate_otp_def floor_le_iff)
qed

text \<open>
  Claim C9. For every value \<open>r\<close> of the random source, a double with \<open>0 \<le> r < 1\<close>, the
  integer that \<^verbatim>\<open>/send-otp\<close> generates lies between 100000 and 999999 inclusive; its
  decimal rendering, which is what gets stored and sent, has exactly six characters, all
  of them digits. Product and sum are the rounded ones of double arithmetic.
\<close>

theorem generate_otp_six_digits:
  assumes "is_double r" and "0 \<le> r" and "r < 1"
  shows "100000 \<le> generate_otp r \<and> generate_otp r \<le> 999999 \<and>
         length (string_of_int (generate_otp r)) = 6 \<and>
         list_all (\<lambda>c. c \<in> set ''0123456789'') (string_of_int (generate_otp r))"
proof -
  have lo: "100000 \<le> generate_otp r" and hi: "generate_otp r \<le> 999999"
    using assms by (rule generate_otp_range)+
  have "100000 \<le> nat (generate_otp r)" "nat (generate_otp r) \<le> 999999"
    using lo hi by simp_all
  then have "length (string_of_nat (nat (generate_otp r))) = 6"
    by (rule string_of_nat_six)
  moreover have "string_of_int (generate_otp r) = string_of_nat (nat (generate_otp r))"
    using lo by (simp add: string_of_int_def)
  ultimately show ?thesis
    using lo hi digits_string_of_nat[of "nat (generate_otp r)"] by simp
qed

text \<open>
  The theorem at a value where the sum is rounded up across an integer, and at the
  largest double below 1.
\<close>

theorem generate_otp_six_digits_witness:
  "is_double rounding_random \<and> 0 \<le> rounding_random \<and> rounding_random < 1 \<and>
   \<lfloor>100000 + rounding_random * 900000\<rfloor> = 100029 \<and>
   generate_otp rounding_random = 100030 \<and>
   length (string_of_int (generate_otp rounding_random)) = 6 \<and>
   is_double largest_random \<and> 0 \<le> largest_random \<and> largest_random < 1 \<and>
   generate_otp largest_random = 999999 \<and>
   length (string_of_int (generate_otp largest_random)) = 6"
proof -
  have b: "0 \<le> rounding_random" "rounding_random < 1" "0 \<le> largest_random" "largest_random < 1"
    by (simp_all add: rounding_random_def largest_random_def)
  show ?thesis
    using generate_otp_six_digits[OF is_double_rounding b(1,2)]
      generate_otp_six_digits[OF is_double_largest b(3,4)] b
    by (simp add: is_double_rounding is_double_largest exact_rounding generate_otp_rounding
        generate_otp_largest)
qed

section \<open>Sending a code\<close>

lemma plus_not_inherited: "startsWith_plus p \<Longrightarrow> p \<notin> set object_prototype_keys"
  by (cases p) (auto simp: object_prototype_keys_def)

lemma otp_read_update: "otp_read (AList.update p v store) p = Own v"
  by (simp add: otp_read_def update_conv')

lemma run_timers_keeps_absent:
  "map_of store k = None \<Longrightarrow> map_of (snd (run_timers t ts store)) k = None"
  by (induction ts arbitrary: store)
     (auto simp: otp_delete_def delete_conv' case_prod_beta)

lemma run_timers_purges:
  "(due, k) \<in> set ts \<Longrightarrow> due \<le> t \<Longrightarrow> map_of (snd (run_timers t ts store)) k = None"
proof (induction ts arbitrary: store)
  case Nil
  then show ?case by simp
next
  case (Cons a ts)
  obtain d' k' where a: "a = (d', k')" by (cases a)
  show ?case
  proof (cases "(due, k) = (d', k')")
    case True
    then show ?thesis
      using Cons.prems a
      by (simp add: run_timers_keeps_absent otp_delete_def delete_conv')
  next
    case False
    then have "(due, k) \<in> set ts" using Cons.prems a by auto
    then show ?thesis
      using Cons.IH[OF _ Cons.prems(2)] a by (auto simp: case_prod_beta)
  qed
qed

lemma run_timers_keeps_other:
  "\<forall>(due, k) \<in> set ts. due \<le> t \<longrightarrow> k \<noteq> p \<Longrightarrow>
   map_of (snd (run_timers t ts store)) p = map_of store p"
  by (induction ts arbitrary: store)
     (auto simp: otp_delete_def delete_conv' case_prod_beta)

lemma otpStore_advance: "otpStore (advance t s) = snd (run_timers t (timers s) (otpStore s))"
  by (simp add: advance_def split: prod.splits)

lemma sendOtp_rejected:
  assumes "p \<noteq> []" "startsWith_plus p"
    and "twilio_create e p (otp_text (generate_otp (math_random e))) = Rejected err"
  shows "sendOtp e (Some p) s =
     (\<lparr>status = 500,
       body = [(''success'', Bool False), (''message'', Str ''Error sending OTP.''),
               (''error'', Str err)]\<rparr>, s)"
  using assms by (simp add: sendOtp_def)

lemma sendOtp_delivered:
  assumes "p \<noteq> []" "startsWith_plus p"
    and "twilio_create e p (otp_text (generate_otp (math_random e))) = Delivered"
  shows "status (fst (sendOtp e (Some p) s)) = 200"
    and "snd (sendOtp e (Some p) s) =
       s\<lparr>otpStore := AList.update p (string_of_int (generate_otp (math_random e))) (otpStore s),
         timers := timers s @ [(date_now e 0 + 300000, p)]\<rparr>"
  using assms by (simp_all add: sendOtp_def Let_def)

lemma timer_purges:
  assumes "startsWith_plus p" and "(d, p) \<in> set (timers s)" and "d \<le> t"
  shows "otp_read (otpStore (advance t s)) p = Undefined"
proof -
  have "map_of (otpStore (advance t s)) p = None"
    unfolding otpStore_advance using assms(2,3) by (rule run_timers_purges)
  then show ?thesis
    using plus_not_inherited[OF assms(1)] by (simp add: otp_read_def)
qed

text \<open>
  Claim C4. For a phone number that passes the format check: if the delivery call
  rejects, the answer is the 500 response with the message "Error sending OTP." and the
  state (code store and timers) is left as it was; if the delivery call succeeds, the
  answer is 200, the generated code is stored under the phone number, and a timer due
  5 * 60 * 1000 ms later is registered that deletes the entry: once it has run, no code
  is stored for the number, whether or not the code was used. The lifetime of the code
  is five minutes only when no older timer for the same number is pending. Line 165
  never clears a timer, and the callback deletes by phone number whatever code is
  stored: when a timer \<open>(d, p)\<close> of an earlier delivery to the same number is pending, the
  new code is gone from time \<open>d\<close> on, which is less than five minutes after it was stored.
\<close>

theorem sendOtp_resend_cuts_lifetime:
  assumes "p \<noteq> []" and "startsWith_plus p"
  shows "(twilio_create e p (otp_text (generate_otp (math_random e))) = Rejected err \<longrightarrow>
            status (fst (sendOtp e (Some p) s)) = 500 \<and>
            message (fst (sendOtp e (Some p) s)) = Some ''Error sending OTP.'' \<and>
            snd (sendOtp e (Some p) s) = s) \<and>
         (twilio_create e p (otp_text (generate_otp (math_random e))) = Delivered \<longrightarrow>
            status (fst (sendOtp e (Some p) s)) = 200 \<and>
            otp_read (otpStore (snd (sendOtp e (Some p) s))) p =
              Own (string_of_int (generate_otp (math_random e))) \<and>
            timers (snd (sendOtp e (Some p) s)) = timers s @ [(date_now e 0 + 5 * 60 * 1000, p)] \<and>
            (\<forall>t \<ge> date_now e 0 + 5 * 60 * 1000.
               otp_read (otpStore (advance t (snd (sendOtp e (Some p) s)))) p = Undefined) \<and>
            (\<forall>d t. (d, p) \<in> set (timers s) \<and> d \<le> t \<longrightarrow>
               otp_read (otpStore (advance t (snd (sendOtp e (Some p) s)))) p = Undefined) \<and>
            ((\<forall>(due, k) \<in> set (timers s). k \<noteq> p) \<longrightarrow>
               (\<forall>t < date_now e 0 + 5 * 60 * 1000.
                  otp_read (otpStore (advance t (snd (sendOtp e (Some p) s)))) p =
                    Own (string_of_int (generate_otp (math_random e))))))"
proof (intro conjI impI)
  assume r: "twilio_create e p (otp_text (generate_otp (math_random e))) = Rejected err"
  show "status (fst (sendOtp e (Some p) s)) = 500"
    "message (fst (sendOtp e (Some p) s)) = Some ''Error sending OTP.''"
    "snd (sendOtp e (Some p) s) = s"
    by (simp_all add: sendOtp_rejected[OF assms r] message_def str_prop_def field_def)
next
  assume d: "twilio_create e p (otp_text (generate_otp (math_random e))) = Delivered"
  note st = sendOtp_delivered[OF assms d, of s]
  show "status (fst (sendOtp e (Some p) s)) = 200" by (rule st)
  show stored: "otp_read (otpStore (snd (sendOtp e (Some p) s))) p =
          Own (string_of_int (generate_otp (math_random e)))"
    by (simp add: st otp_read_update)
  show tm: "timers (snd (sendOtp e (Some p) s)) = timers s @ [(date_now e 0 + 5 * 60 * 1000, p)]"
    by (simp add: st)
  show "\<forall>t \<ge> date_now e 0 + 5 * 60 * 1000.
          otp_read (otpStore (advance t (snd (sendOtp e (Some p) s)))) p = Undefined"
  proof (intro allI impI)
    fix t assume "date_now e 0 + 5 * 60 * 1000 \<le> t"
    moreover have "(date_now e 0 + 5 * 60 * 1000, p) \<in> set (timers (snd (sendOtp e (Some p) s)))"
      by (simp add: tm)
    ultimately show "otp_read (otpStore (advance t (snd (sendOtp e (Some p) s)))) p = Undefined"
      by (intro timer_purges[OF assms(2)])
  qed
  show "\<forall>d t. (d, p) \<in> set (timers s) \<and> d \<le> t \<longrightarrow>
          otp_read (otpStore (advance t (snd (sendOtp e (Some p) s)))) p = Undefined"
  proof (intro allI impI)
    fix d t assume "(d, p) \<in> set (timers s) \<and> d \<le> t"
    then have "(d, p) \<in> set (timers (snd (sendOtp e (Some p) s)))" "d \<le> t"
      by (simp_all add: tm)
    then show "otp_read (otpStore (advance t (snd (sendOtp e (Some p) s)))) p = Undefined"
      by (intro timer_purges[OF assms(2)])
  qed
  {
    assume fresh: "\<forall>(due, k) \<in> set (timers s). k \<noteq> p"
    show "\<forall>t < date_now e 0 + 5 * 60 * 1000.
            otp_read (otpStore (advance t (snd (sendOtp e (Some p) s)))) p =
              Own (string_of_int (generate_otp (math_random e)))"
    proof (intro allI impI)
      fix t assume "t < date_now e 0 + 5 * 60 * 1000"
      then have "\<forall>(due, k) \<in> set (timers (snd (sendOtp e (Some p) s))). due \<le> t \<longrightarrow> k \<noteq> p"
        using fresh by (auto simp: tm)
      then have "map_of (otpStore (advance t (snd (sendOtp e (Some p) s)))) p =
                 map_of (otpStore (snd (sendOtp e (Some p) s))) p"
        unfolding otpStore_advance by (rule run_timers_keeps_other)
      then show "otp_read (otpStore (advance t (snd (sendOtp e (Some p) s)))) p =
              Own (string_of_int (generate_otp (math_random e)))"
        using stored by (simp add: otp_read_def)
    qed
  }
qed

section \<open>Verifying a code\<close>

lemma verifyOtp_no_code:
  assumes "p \<noteq> []" "truthy (Some code)" "map_of (otpStore s) p = None"
    "p \<notin> set object_prototype_keys"
  shows "verifyOtp e (Some p) (Some code) s = (failure 400 ''OTP expired or not requested.'', s)"
  using assms by (simp add: verifyOtp_def otp_read_def)






section \<open>The face check\<close>

lemma resolve_canvas: "resolve ''canvas'' = Inl ReferenceError"
  by (simp add: resolve_def compareFaces_bindings_def module_bindings_def node_globals_def)

lemma compareFaces_false: "compareFaces e live stored = False"
  by (simp add: compareFaces_def compareFaces_try_def resolve_canvas and_then_def)

text \<open>
  Claim C5. \<^verbatim>\<open>compareFaces\<close> is meant to report a match exactly when both images yield a
  descriptor and the distance is below 0.6. Its first statement reads the unbound
  identifier \<^verbatim>\<open>canvas\<close>, so the \<^verbatim>\<open>try\<close> block always throws and the function returns
  false on every input and never throws itself: also with the example collaborators,
  where both images yield the same descriptor, at distance 0.
\<close>

theorem compareFaces_never_matches:
  "compareFaces e liveImageBase64 storedImagePath = False \<and>
   detect_single_face demo_env 1 = Inr (Some [0, 0]) \<and>
   detect_single_face demo_env 2 = Inr (Some [0, 0]) \<and>
   euclidean_distance demo_env [0, 0] [0, 0] = Inr 0 \<and>
   compareFaces demo_env (Some ''live'') ''uploads/face-1.jpg'' = False"
  by (simp add: compareFaces_false demo_env_def)

section \<open>Registration and login answers\<close>

lemma satisfies_Some [simp]: "satisfies dropped d (k, Some v) = (field d k = Some v)"
  by (simp add: satisfies_def)

lemma satisfies_equal: "field d k = v \<Longrightarrow> satisfies dropped d (k, v)"
  by (simp add: satisfies_def)

lemma findOne_email_found:
  assumes "connected s" "\<exists>u \<in> set (users s). field u ''email'' = Some (Str m)"
  shows "\<exists>u \<in> set (users s). field u ''email'' = Some (Str m) \<and>
           findOne s (users s) [(''email'', Some (Str m))] = Some (Some u)"
proof -
  have "find (\<lambda>d. field d ''email'' = Some (Str m)) (users s) \<noteq> None"
    using assms(2) by (auto simp: find_None_iff)
  then obtain u where u: "find (\<lambda>d. field d ''email'' = Some (Str m)) (users s) = Some u"
    by blast
  then have "u \<in> set (users s) \<and> field u ''email'' = Some (Str m)"
    by (auto simp: find_Some_iff)
  then show ?thesis using u assms(1) by (auto simp: findOne_def)
qed

lemma findOne_email_missing:
  assumes "connected s" "\<forall>u \<in> set (users s). field u ''email'' \<noteq> Some (Str m)"
  shows "findOne s (users s) [(''email'', Some (Str m))] = Some None"
  using assms by (simp add: findOne_def find_None_iff)

lemma register_conflict:
  assumes "connected s" "n \<noteq> []" "m \<noteq> []" "pw \<noteq> []"
    and "\<exists>u \<in> set (users s). field u ''email'' = Some (Str m)"
  shows "register e (Some n) (Some m) (Some pw) s =
           (failure 400 ''Email or phone number already registered.'', s)"
proof -
  obtain u where "findOne s (users s) [(''email'', Some (Str m))] = Some (Some u)"
    using findOne_email_found[OF assms(1,5)] by blast
  then show ?thesis using assms(2-4) by (simp add: register_def)
qed

lemma register_present_unchanged:
  assumes "\<exists>u \<in> set (users s). field u ''email'' = Some (Str m)"
  shows "snd (register e name (Some m) password s) = s \<and>
         status (fst (register e name (Some m) password s)) \<noteq> 201"
proof (cases "connected s")
  case True
  obtain u where "findOne s (users s) [(''email'', Some (Str m))] = Some (Some u)"
    using findOne_email_found[OF True assms] by blast
  then show ?thesis
    by (simp add: register_def failure_def split: option.splits)
next
  case False
  then show ?thesis
    by (simp add: register_def failure_def findOne_def split: option.splits)
qed

lemma new_User_email:
  "field (new_User oid now [(''name'', Str n), (''email'', Str m), (''password'', Str h)]) ''email''
     = Some (Str m)"
  by (simp add: new_User_def with_default_def strict_def user_paths_def field_def)

lemma register_created:
  assumes "register e name (Some m) password s = (r, s')" "status r = 201"
  shows "connected s' \<and> (\<exists>u \<in> set (users s'). field u ''email'' = Some (Str m))"
  using assms
  by (auto simp: register_def failure_def save_user_def Let_def new_User_email
      split: option.splits if_splits)

text \<open>
  Claim C6. A \<^verbatim>\<open>register\<close> call whose email is already stored fails and creates no
  user: the state is unchanged and the answer is not 201, whatever the other fields
  are. When the call is complete (name, email and password present) and the database
  is reachable, the answer is the 400 response "Email or phone number already
  registered.". In particular, after a registration that succeeded, a second complete
  registration with the same email gets that answer.
\<close>

theorem register_duplicate_email:
  assumes "name \<noteq> []" and "email \<noteq> []" and "password \<noteq> []"
  shows "(connected s \<and> (\<exists>u \<in> set (users s). field u ''email'' = Some (Str email)) \<longrightarrow>
            register e (Some name) (Some email) (Some password) s =
              (failure 400 ''Email or phone number already registered.'', s)) \<and>
         ((\<exists>u \<in> set (users s). field u ''email'' = Some (Str email)) \<longrightarrow>
            snd (register e name' (Some email) password' s) = s \<and>
            status (fst (register e name' (Some email) password' s)) \<noteq> 201) \<and>
         (register e1 name1 (Some email) password1 s0 = (r1, s1) \<and> status r1 = 201 \<longrightarrow>
            register e (Some name) (Some email) (Some password) s1 =
              (failure 400 ''Email or phone number already registered.'', s1))"
proof (intro conjI impI)
  assume "connected s \<and> (\<exists>u \<in> set (users s). field u ''email'' = Some (Str email))"
  then show "register e (Some name) (Some email) (Some password) s =
      (failure 400 ''Email or phone number already registered.'', s)"
    using assms by (simp add: register_conflict)
next
  assume p: "\<exists>u \<in> set (users s). field u ''email'' = Some (Str email)"
  show "snd (register e name' (Some email) password' s) = s"
    "status (fst (register e name' (Some email) password' s)) \<noteq> 201"
    using register_present_unchanged[OF p] by simp_all
next
  assume "register e1 name1 (Some email) password1 s0 = (r1, s1) \<and> status r1 = 201"
  then have "connected s1 \<and> (\<exists>u \<in> set (users s1). field u ''email'' = Some (Str email))"
    using register_created by blast
  then show "register e (Some name) (Some email) (Some password) s1 =
      (failure 400 ''Email or phone number already registered.'', s1)"
    using assms by (simp add: register_conflict)
qed

lemma find_user_by_email_string:
  "find_user_by_email e s (Str m) = findOne s (users s) [(''email'', Some (Str m))]"
  by (simp add: find_user_by_email_def)

lemma login_unknown_email:
  assumes "connected s" "email \<noteq> []" "truthy (Some pw)"
    and "\<forall>u \<in> set (users s). field u ''email'' \<noteq> Some (Str email)"
  shows "login e (Some (Str email)) (Some pw) s = (failure 401 ''Invalid credentials.'', s)"
  using assms(2,3) findOne_email_missing[OF assms(1,4)]
  by (simp add: login_def find_user_by_email_string)

lemma login_password_not_string:
  assumes "connected s" "email \<noteq> []" "truthy (Some pw)" "as_string pw = None"
    and "\<exists>u \<in> set (users s). field u ''email'' = Some (Str email)"
  shows "login e (Some (Str email)) (Some pw) s =
           (failure 500 ''Login failed. Please try again.'', s)"
proof -
  obtain u where "findOne s (users s) [(''email'', Some (Str email))] = Some (Some u)"
    using findOne_email_found[OF assms(1,5)] by blast
  then show ?thesis
    using assms(2-4) by (simp add: login_def find_user_by_email_string)
qed

lemma login_wrong_password:
  assumes "connected s" "email \<noteq> []" "password \<noteq> []"
    and "\<exists>u \<in> set (users s). field u ''email'' = Some (Str email)"
    and "\<forall>u \<in> set (users s). field u ''email'' = Some (Str email) \<longrightarrow>
           (\<exists>h. str_prop u ''password'' = Some h \<and> \<not> bcrypt_compare e password h)"
  shows "login e (Some (Str email)) (Some (Str password)) s =
           (failure 401 ''Invalid credentials.'', s)"
proof -
  obtain u where u: "u \<in> set (users s)" "field u ''email'' = Some (Str email)"
      "findOne s (users s) [(''email'', Some (Str email))] = Some (Some u)"
    using findOne_email_found[OF assms(1,4)] by blast
  then obtain h where "str_prop u ''password'' = Some h" "\<not> bcrypt_compare e password h"
    using assms(5) by blast
  then show ?thesis
    using assms(2,3) u(3) by (simp add: login_def find_user_by_email_string)
qed

text \<open>
  Claim C7. \<^verbatim>\<open>login\<close> is meant to give an unknown email and a wrong password the same
  answer. It does when the password is a string: with the database reachable, an attempt
  whose email matches no stored user and an attempt with a stored email and a password
  that \<^verbatim>\<open>bcrypt.compare\<close> rejects both get the 401 response "Invalid credentials." and
  leave the same state. It does not when the password is a truthy JSON value that is not
  a string, such as a number: line 281 lets it pass, an unknown email is answered 401 on
  line 291 before the password is looked at, and for a stored email \<^verbatim>\<open>bcrypt.compare\<close>
  throws and the \<^verbatim>\<open>catch\<close> block answers 500 "Login failed. Please try again.". The two
  failing attempts are told apart, whatever password is stored.
\<close>

theorem login_tells_stored_email:
  assumes "connected s" and "email1 \<noteq> []" and "email2 \<noteq> []"
    and unknown: "\<forall>u \<in> set (users s). field u ''email'' \<noteq> Some (Str email1)"
    and known: "\<exists>u \<in> set (users s). field u ''email'' = Some (Str email2)"
  shows "(truthy (Some pw) \<and> as_string pw = None \<longrightarrow>
            login e1 (Some (Str email1)) (Some pw) s = (failure 401 ''Invalid credentials.'', s) \<and>
            login e2 (Some (Str email2)) (Some pw) s =
              (failure 500 ''Login failed. Please try again.'', s) \<and>
            fst (login e1 (Some (Str email1)) (Some pw) s) \<noteq>
              fst (login e2 (Some (Str email2)) (Some pw) s)) \<and>
         (password1 \<noteq> [] \<and> password2 \<noteq> [] \<and>
          (\<forall>u \<in> set (users s). field u ''email'' = Some (Str email2) \<longrightarrow>
             (\<exists>h. str_prop u ''password'' = Some h \<and> \<not> bcrypt_compare e2 password2 h)) \<longrightarrow>
            login e1 (Some (Str email1)) (Some (Str password1)) s =
              login e2 (Some (Str email2)) (Some (Str password2)) s \<and>
            login e1 (Some (Str email1)) (Some (Str password1)) s =
              (failure 401 ''Invalid credentials.'', s))"
proof (intro conjI impI)
  assume h: "truthy (Some pw) \<and> as_string pw = None"
  show a: "login e1 (Some (Str email1)) (Some pw) s = (failure 401 ''Invalid credentials.'', s)"
    using assms(1,2) h unknown by (simp add: login_unknown_email)
  show b: "login e2 (Some (Str email2)) (Some pw) s =
      (failure 500 ''Login failed. Please try again.'', s)"
    using assms(1,3) h known by (simp add: login_password_not_string)
  show "fst (login e1 (Some (Str email1)) (Some pw) s) \<noteq>
      fst (login e2 (Some (Str email2)) (Some pw) s)"
    by (simp add: a b failure_def)
next
  assume h: "password1 \<noteq> [] \<and> password2 \<noteq> [] \<and>
          (\<forall>u \<in> set (users s). field u ''email'' = Some (Str email2) \<longrightarrow>
             (\<exists>h. str_prop u ''password'' = Some h \<and> \<not> bcrypt_compare e2 password2 h))"
  have a: "login e1 (Some (Str email1)) (Some (Str password1)) s =
      (failure 401 ''Invalid credentials.'', s)"
    using assms(1,2) h unknown by (simp add: login_unknown_email)
  have b: "login e2 (Some (Str email2)) (Some (Str password2)) s =
      (failure 401 ''Invalid credentials.'', s)"
    using assms(1,3) h known by (intro login_wrong_password) simp_all
  show "login e1 (Some (Str email1)) (Some (Str password1)) s =
      login e2 (Some (Str email2)) (Some (Str password2)) s"
    by (simp add: a b)
  show "login e1 (Some (Str email1)) (Some (Str password1)) s =
      (failure 401 ''Invalid credentials.'', s)"
    by (rule a)
qed

section \<open>Verifying a ticket\<close>

lemma field_set_status: "field (set_status v d) k = (if k = ''status'' then Some v else field d k)"
  by (simp add: set_status_def field_def update_conv')

lemma find_map_invariant:
  "(\<And>x. P (g x) = P x) \<Longrightarrow> find P (map g xs) = map_option g (find P xs)"
  by (induction xs) simp_all

lemma verifyTicket_with_answers:
  assumes "verifyTicket_with faces qrData faceImage user s = (r, s')"
  shows "r \<in> {failure 500 ''Server error during ticket verification'',
               failure 404 ''Ticket not found or doesn't belong to user'',
               failure 400 ''User face not registered'',
               failure 403 ''Face verification failed'',
               \<lparr>status = 200,
                 body = [(''success'', Bool True),
                         (''message'', Str ''Ticket verified successfully'')]\<rparr>}"
  using assms
  by (auto simp: verifyTicket_with_def Let_def split: option.splits if_splits)

lemma verifyTicket_with_failure_unchanged:
  assumes "verifyTicket_with faces qrData faceImage user s = (r, s')" "status r \<noteq> 200"
  shows "s' = s"
  using assms
  by (auto simp: verifyTicket_with_def Let_def split: option.splits if_splits)

lemma update_status_tickets:
  assumes "update_status ticket v s = Some s'"
  shows "tickets s' =
     map (\<lambda>d. if field d ''_id'' = field ticket ''_id'' then set_status v d else d) (tickets s)"
  using assms by (auto simp: update_status_def split: if_splits)

lemma verifyTicket_with_tickets:
  assumes "verifyTicket_with faces qrData faceImage user s = (r, s')"
  shows "tickets s' = tickets s \<or>
         (\<exists>ticket. tickets s' =
            map (\<lambda>d. if field d ''_id'' = field ticket ''_id''
                      then set_status (Str ''used'') d else d) (tickets s))"
  using assms
  by (auto simp: verifyTicket_with_def Let_def dest: update_status_tickets
      split: option.splits if_splits)

lemma verifyTicket_with_status_monotone:
  assumes "verifyTicket_with faces qrData faceImage user s = (r, s')"
  shows "length (tickets s') = length (tickets s) \<and>
         (\<forall>i < length (tickets s).
            field (tickets s' ! i) ''status'' = field (tickets s ! i) ''status'' \<or>
            field (tickets s' ! i) ''status'' = Some (Str ''used''))"
  using verifyTicket_with_tickets[OF assms]
  by (auto simp: field_set_status)

lemma satisfies_set_status:
  "k \<noteq> ''status'' \<Longrightarrow> satisfies dropped (set_status st d) (k, v) = satisfies dropped d (k, v)"
  by (simp add: satisfies_def field_set_status)

lemma findOne_ticket_set_status:
  "findOne (s\<lparr>tickets := ts'\<rparr>) (map (set_status st) ts) [(''qrCode'', a), (''userId'', b)] =
   map_option (map_option (set_status st)) (findOne s ts [(''qrCode'', a), (''userId'', b)])"
proof -
  let ?P = "\<lambda>d. list_all (satisfies (drops_undefined s) d) [(''qrCode'', a), (''userId'', b)]"
  have "\<And>d. ?P (set_status st d) = ?P d"
    by (simp add: satisfies_set_status)
  then have "find ?P (map (set_status st) ts) = map_option (set_status st) (find ?P ts)"
    by (rule find_map_invariant)
  then show ?thesis
    unfolding findOne_def by simp
qed

lemma verifyTicket_with_ignores_status:
  "fst (verifyTicket_with faces qrData faceImage user
          (s\<lparr>tickets := map (set_status st) (tickets s)\<rparr>)) =
   fst (verifyTicket_with faces qrData faceImage user s)"
proof (cases "findOne s (tickets s)
    [(''qrCode'', map_option Str qrData), (''userId'', field user ''userId'')]")
  case None
  then show ?thesis
    by (simp add: verifyTicket_with_def Let_def findOne_ticket_set_status)
next
  case (Some found)
  then have c: "connected s" by (simp add: findOne_def split: if_splits)
  show ?thesis
    using Some c
    by (cases found)
       (simp_all add: verifyTicket_with_def Let_def findOne_ticket_set_status findById_def
         update_status_def split: option.splits)
qed

lemma findOne_ticket_none:
  assumes "connected s"
    and "\<forall>t \<in> set (tickets s). \<not> (field t ''qrCode'' = Some a \<and> field t ''userId'' = Some b)"
  shows "findOne s (tickets s) [(''qrCode'', Some a), (''userId'', Some b)] = Some None"
  using assms by (simp add: findOne_def find_None_iff)

lemma findOne_ticket_some:
  assumes "connected s"
    and "\<exists>t \<in> set (tickets s). field t ''qrCode'' = a \<and> field t ''userId'' = b"
  shows "\<exists>t. findOne s (tickets s) [(''qrCode'', a), (''userId'', b)] = Some (Some t)"
proof -
  obtain t where "t \<in> set (tickets s)" "field t ''qrCode'' = a" "field t ''userId'' = b"
    using assms(2) by blast
  then have "t \<in> set (tickets s) \<and>
      list_all (satisfies (drops_undefined s) t) [(''qrCode'', a), (''userId'', b)]"
    by (simp add: satisfies_equal)
  then have "find (\<lambda>d. list_all (satisfies (drops_undefined s) d) [(''qrCode'', a), (''userId'', b)])
          (tickets s) \<noteq> None"
    unfolding find_None_iff by blast
  then show ?thesis using assms(1) by (auto simp: findOne_def)
qed

lemma verifyTicket_with_not_found:
  assumes "connected s" and "field user ''userId'' = Some uid"
    and "\<forall>t \<in> set (tickets s).
           \<not> (field t ''qrCode'' = Some (Str q) \<and> field t ''userId'' = Some uid)"
  shows "verifyTicket_with faces (Some q) faceImage user s =
           (failure 404 ''Ticket not found or doesn't belong to user'', s)"
  using findOne_ticket_none[OF assms(1,3)] assms(2) by (simp add: verifyTicket_with_def)

lemma verifyTicket_with_found:
  assumes "connected s"
    and "\<exists>t \<in> set (tickets s).
           field t ''qrCode'' = map_option Str qrData \<and> field t ''userId'' = field user ''userId''"
  shows "status (fst (verifyTicket_with faces qrData faceImage user s)) \<in> {200, 400, 403}"
proof -
  obtain t where "findOne s (tickets s)
      [(''qrCode'', map_option Str qrData), (''userId'', field user ''userId'')] = Some (Some t)"
    using findOne_ticket_some[OF assms] by blast
  then show ?thesis
    using assms(1)
    by (auto simp: verifyTicket_with_def Let_def findById_def update_status_def failure_def
        split: option.splits)
qed

text \<open>
  Claim C1, as the code has it. \<^verbatim>\<open>verifyTicket\<close> makes no status check and has no
  conflict answer: its answers are the 500, 404, 400 "User face not registered", 403
  "Face verification failed" and 200 responses, and the answer is the same as if every
  stored ticket were reset to any one status, so a used or expired ticket is answered
  like an active one. When the database is reachable and the caller owns a ticket with
  the scanned code, whatever its status, the answer comes from the face gate: 400, 403
  or 200. Every call that is not answered 200 leaves the state unchanged. The only
  status the handler writes is \<^verbatim>\<open>used\<close>: after any call each stored ticket has the status
  it had or \<^verbatim>\<open>used\<close>, so a used ticket stays used. The face check is a parameter here;
  the route passes \<^verbatim>\<open>compareFaces\<close>.
\<close>

theorem verifyTicket_no_status_check:
  assumes "verifyTicket_with faces qrData faceImage user s = (r, s')"
  shows "r \<in> {failure 500 ''Server error during ticket verification'',
               failure 404 ''Ticket not found or doesn't belong to user'',
               failure 400 ''User face not registered'',
               failure 403 ''Face verification failed'',
               \<lparr>status = 200,
                 body = [(''success'', Bool True),
                         (''message'', Str ''Ticket verified successfully'')]\<rparr>} \<and>
         (\<forall>st. fst (verifyTicket_with faces qrData faceImage user
                      (s\<lparr>tickets := map (set_status st) (tickets s)\<rparr>)) = r) \<and>
         (connected s \<and>
          (\<exists>t \<in> set (tickets s). field t ''qrCode'' = map_option Str qrData \<and>
                                  field t ''userId'' = field user ''userId'') \<longrightarrow>
            status r \<in> {200, 400, 403}) \<and>
         (status r \<noteq> 200 \<longrightarrow> s' = s) \<and>
         length (tickets s') = length (tickets s) \<and>
         (\<forall>i < length (tickets s).
            field (tickets s' ! i) ''status'' = field (tickets s ! i) ''status'' \<or>
            field (tickets s' ! i) ''status'' = Some (Str ''used''))"
proof -
  have "\<forall>st. fst (verifyTicket_with faces qrData faceImage user
                      (s\<lparr>tickets := map (set_status st) (tickets s)\<rparr>)) = r"
    using assms by (simp add: verifyTicket_with_ignores_status)
  moreover have "status r \<noteq> 200 \<longrightarrow> s' = s"
    using verifyTicket_with_failure_unchanged[OF assms] by blast
  moreover have "connected s \<and>
          (\<exists>t \<in> set (tickets s). field t ''qrCode'' = map_option Str qrData \<and>
                                  field t ''userId'' = field user ''userId'') \<longrightarrow>
            status r \<in> {200, 400, 403}"
    using verifyTicket_with_found[of s qrData user faces faceImage] assms by simp
  ultimately show ?thesis
    using verifyTicket_with_answers[OF assms] verifyTicket_with_status_monotone[OF assms]
    by blast
qed

lemma findOne_ticket_dropped_some:
  assumes "connected s" "drops_undefined s"
    and "\<exists>t \<in> set (tickets s). field t ''qrCode'' = a"
  shows "\<exists>t. findOne s (tickets s) [(''qrCode'', a), (''userId'', None)] = Some (Some t)"
proof -
  obtain t where "t \<in> set (tickets s)" "field t ''qrCode'' = a"
    using assms(3) by blast
  then have "t \<in> set (tickets s) \<and>
      list_all (satisfies (drops_undefined s) t) [(''qrCode'', a), (''userId'', None)]"
    using assms(2) by (simp add: satisfies_def)
  then have "find (\<lambda>d. list_all (satisfies (drops_undefined s) d) [(''qrCode'', a), (''userId'', None)])
          (tickets s) \<noteq> None"
    unfolding find_None_iff by blast
  then show ?thesis using assms(1) by (auto simp: findOne_def)
qed

lemma findOne_ticket_dropped_none:
  assumes "connected s" "drops_undefined s"
    and "\<forall>t \<in> set (tickets s). field t ''qrCode'' \<noteq> Some a"
  shows "findOne s (tickets s) [(''qrCode'', Some a), (''userId'', None)] = Some None"
  using assms by (auto simp: findOne_def find_None_iff)

lemma findOne_ticket_null_none:
  assumes "connected s" "\<not> drops_undefined s"
    and "\<forall>t \<in> set (tickets s). \<not> (field t ''qrCode'' = Some a \<and> field t ''userId'' = None)"
  shows "findOne s (tickets s) [(''qrCode'', Some a), (''userId'', None)] = Some None"
  using assms by (simp add: findOne_def find_None_iff satisfies_def)

lemma verifyTicket_with_no_owner:
  assumes "connected s" and "field user ''userId'' = None"
    and "findOne s (tickets s) [(''qrCode'', Some (Str q)), (''userId'', None)] = Some (Some t)"
  shows "verifyTicket_with faces (Some q) faceImage user s =
           (failure 400 ''User face not registered'', s)"
  using assms by (simp add: verifyTicket_with_def findById_def)

lemma verifyTicket_with_no_match:
  assumes "field user ''userId'' = None"
    and "findOne s (tickets s) [(''qrCode'', Some (Str q)), (''userId'', None)] = Some None"
  shows "verifyTicket_with faces (Some q) faceImage user s =
           (failure 404 ''Ticket not found or doesn't belong to user'', s)"
  using assms by (simp add: verifyTicket_with_def)

lemma verifyTicket_identity_not_found:
  assumes "connected s" and "field user ''userId'' = Some uid"
  shows "status (fst (verifyTicket e (Some q) face user s)) = 404 \<longleftrightarrow>
           \<not> (\<exists>t \<in> set (tickets s).
                 field t ''qrCode'' = Some (Str q) \<and> field t ''userId'' = Some uid)"
proof (cases "\<exists>t \<in> set (tickets s).
                 field t ''qrCode'' = Some (Str q) \<and> field t ''userId'' = Some uid")
  case True
  then show ?thesis
    using verifyTicket_with_found[OF assms(1), of "Some q" user "compareFaces e" face] assms(2)
    by (auto simp: verifyTicket_def)
next
  case False
  then show ?thesis
    using verifyTicket_with_not_found[OF assms, of q "compareFaces e" face]
    by (simp add: verifyTicket_def failure_def)
qed

text \<open>
  Claim C8. \<^verbatim>\<open>verifyTicket\<close> looks the ticket up by the scanned code and by
  \<^verbatim>\<open>req.user.userId\<close> together, and is meant to give a caller who does not own a ticket
  the same answer whether or not a ticket with the code exists. It does for a caller
  whose token carries a user identifier: with the database reachable the answer is the
  404 response "Ticket not found or doesn't belong to user" exactly when no stored
  ticket has both that code and that owner, and then the state is unchanged. It does
  not for a caller with a token of \<^verbatim>\<open>/verify-otp\<close>, which passes \<^verbatim>\<open>authenticateToken\<close>
  and whose payload has no \<^verbatim>\<open>userId\<close>, so that line 444 reads \<^verbatim>\<open>undefined\<close>. When the
  query leaves the \<^verbatim>\<open>undefined\<close> condition out, every ticket with the code is found;
  when it sends null, every ticket with the code and without an owner is found, as
  stored for callers with such tokens. Then \<^verbatim>\<open>User.findById(undefined)\<close> gives no user,
  and the answer is the 400 response "User face not registered", where a code that no
  such ticket has is answered 404: the caller learns that a ticket with the code exists.
\<close>

theorem verifyTicket_otp_token_tells_existence:
  assumes "connected s" and "field user ''userId'' = None"
  shows "(drops_undefined s \<longrightarrow>
            ((\<exists>t \<in> set (tickets s). field t ''qrCode'' = Some (Str q)) \<longrightarrow>
               verifyTicket e (Some q) face user s =
                 (failure 400 ''User face not registered'', s)) \<and>
            ((\<forall>t \<in> set (tickets s). field t ''qrCode'' \<noteq> Some (Str q)) \<longrightarrow>
               verifyTicket e (Some q) face user s = (failure 404 ''Ticket not found or doesn't belong to user'', s))) \<and>
         (\<not> drops_undefined s \<longrightarrow>
            ((\<exists>t \<in> set (tickets s).
                 field t ''qrCode'' = Some (Str q) \<and> field t ''userId'' = None) \<longrightarrow>
               verifyTicket e (Some q) face user s =
                 (failure 400 ''User face not registered'', s)) \<and>
            ((\<forall>t \<in> set (tickets s).
                 \<not> (field t ''qrCode'' = Some (Str q) \<and> field t ''userId'' = None)) \<longrightarrow>
               verifyTicket e (Some q) face user s = (failure 404 ''Ticket not found or doesn't belong to user'', s))) \<and>
         (\<forall>owner uid. field owner ''userId'' = Some uid \<longrightarrow>
            (status (fst (verifyTicket e (Some q) face owner s)) = 404 \<longleftrightarrow>
               \<not> (\<exists>t \<in> set (tickets s).
                     field t ''qrCode'' = Some (Str q) \<and> field t ''userId'' = Some uid)) \<and>
            ((\<forall>t \<in> set (tickets s).
                 \<not> (field t ''qrCode'' = Some (Str q) \<and> field t ''userId'' = Some uid)) \<longrightarrow>
               verifyTicket e (Some q) face owner s = (failure 404 ''Ticket not found or doesn't belong to user'', s)))"
proof (intro conjI impI allI)
  assume d: "drops_undefined s"
  {
    assume "\<exists>t \<in> set (tickets s). field t ''qrCode'' = Some (Str q)"
    then obtain t where
      "findOne s (tickets s) [(''qrCode'', Some (Str q)), (''userId'', None)] = Some (Some t)"
      using findOne_ticket_dropped_some[OF assms(1) d] by blast
    then show "verifyTicket e (Some q) face user s =
        (failure 400 ''User face not registered'', s)"
      unfolding verifyTicket_def by (rule verifyTicket_with_no_owner[OF assms])
  }
  {
    assume "\<forall>t \<in> set (tickets s). field t ''qrCode'' \<noteq> Some (Str q)"
    then have "findOne s (tickets s) [(''qrCode'', Some (Str q)), (''userId'', None)] = Some None"
      by (rule findOne_ticket_dropped_none[OF assms(1) d])
    then show "verifyTicket e (Some q) face user s = (failure 404 ''Ticket not found or doesn't belong to user'', s)"
      unfolding verifyTicket_def by (rule verifyTicket_with_no_match[OF assms(2)])
  }
next
  assume d: "\<not> drops_undefined s"
  {
    assume "\<exists>t \<in> set (tickets s).
        field t ''qrCode'' = Some (Str q) \<and> field t ''userId'' = None"
    then obtain t where
      "findOne s (tickets s) [(''qrCode'', Some (Str q)), (''userId'', None)] = Some (Some t)"
      using findOne_ticket_some[OF assms(1)] by blast
    then show "verifyTicket e (Some q) face user s =
        (failure 400 ''User face not registered'', s)"
      unfolding verifyTicket_def by (rule verifyTicket_with_no_owner[OF assms])
  }
  {
    assume "\<forall>t \<in> set (tickets s).
        \<not> (field t ''qrCode'' = Some (Str q) \<and> field t ''userId'' = None)"
    then have "findOne s (tickets s) [(''qrCode'', Some (Str q)), (''userId'', None)] = Some None"
      by (rule findOne_ticket_null_none[OF assms(1) d])
    then show "verifyTicket e (Some q) face user s = (failure 404 ''Ticket not found or doesn't belong to user'', s)"
      unfolding verifyTicket_def by (rule verifyTicket_with_no_match[OF assms(2)])
  }
next
  fix owner uid
  assume i: "field owner ''userId'' = Some uid"
  show "status (fst (verifyTicket e (Some q) face owner s)) = 404 \<longleftrightarrow>
      \<not> (\<exists>t \<in> set (tickets s).
            field t ''qrCode'' = Some (Str q) \<and> field t ''userId'' = Some uid)"
    by (rule verifyTicket_identity_not_found[OF assms(1) i])
  {
    assume "\<forall>t \<in> set (tickets s).
        \<not> (field t ''qrCode'' = Some (Str q) \<and> field t ''userId'' = Some uid)"
    then show "verifyTicket e (Some q) face owner s = (failure 404 ''Ticket not found or doesn't belong to user'', s)"
      unfolding verifyTicket_def by (intro verifyTicket_with_not_found[OF assms(1) i])
  }
qed

section \<open>Fetching a ticket\<close>

lemma getTicket_ignores_user: "getTicket ident user1 s = getTicket ident user2 s"
  by (simp add: getTicket_def)

lemma findOne_ticketId:
  assumes "connected s" "t \<in> set (tickets s)" "field t ''ticketId'' = Some (Str ident)"
    and "\<forall>t' \<in> set (tickets s). field t' ''ticketId'' = Some (Str ident) \<longrightarrow> t' = t"
  shows "findOne s (tickets s) [(''ticketId'', Some (Str ident))] = Some (Some t)"
proof -
  have "find (\<lambda>d. field d ''ticketId'' = Some (Str ident)) (tickets s) \<noteq> None"
    using assms(2,3) by (auto simp: find_None_iff)
  then obtain t' where t': "find (\<lambda>d. field d ''ticketId'' = Some (Str ident)) (tickets s) = Some t'"
    by blast
  then have "t' \<in> set (tickets s) \<and> field t' ''ticketId'' = Some (Str ident)"
    by (auto simp: find_Some_iff)
  then have "t' = t" using assms(4) by blast
  then show ?thesis using t' assms(1) by (simp add: findOne_def)
qed

text \<open>
  Claim C10. \<^verbatim>\<open>GET /ticket/:id\<close> makes no ownership check: two requests for the same
  identifier whose tokens pass \<^verbatim>\<open>authenticateToken\<close> get the same answer whoever the
  tokens identify, and when the database is reachable and holds a ticket with that
  identifier, the answer is the 200 response carrying the whole ticket document,
  whoever owns the ticket.
\<close>

theorem getTicket_no_ownership_check:
  assumes "authenticateToken e authorization1 = Inr user1"
    and "authenticateToken e authorization2 = Inr user2"
  shows "route_get_ticket e authorization1 ident s = route_get_ticket e authorization2 ident s \<and>
         (connected s \<and> t \<in> set (tickets s) \<and> field t ''ticketId'' = Some (Str ident) \<and>
          (\<forall>t' \<in> set (tickets s). field t' ''ticketId'' = Some (Str ident) \<longrightarrow> t' = t) \<longrightarrow>
            route_get_ticket e authorization2 ident s =
              (\<lparr>status = 200, body = [(''success'', Bool True), (''ticket'', Obj t)]\<rparr>, s))"
proof (intro conjI impI)
  show "route_get_ticket e authorization1 ident s = route_get_ticket e authorization2 ident s"
    using assms by (simp add: route_get_ticket_def authenticated_def getTicket_ignores_user[of ident user1 s user2])
next
  assume "connected s \<and> t \<in> set (tickets s) \<and> field t ''ticketId'' = Some (Str ident) \<and>
          (\<forall>t' \<in> set (tickets s). field t' ''ticketId'' = Some (Str ident) \<longrightarrow> t' = t)"
  then have "findOne s (tickets s) [(''ticketId'', Some (Str ident))] = Some (Some t)"
    using findOne_ticketId by blast
  then show "route_get_ticket e authorization2 ident s =
              (\<lparr>status = 200, body = [(''success'', Bool True), (''ticket'', Obj t)]\<rparr>, s)"
    using assms(2) by (simp add: route_get_ticket_def authenticated_def getTicket_def)
qed

section \<open>Creating a ticket\<close>

lemma base36_example: "base36_upper 1735689600000 = ''M5D4RUO0''"
  by (simp add: base36_upper_def base36_nat.simps digit36_def)

lemma keys_literal: "fst ` set (literal ps) \<subseteq> fst ` set ps"
  by (induction ps rule: literal.induct) auto

lemma field_absent: "k \<notin> fst ` set d \<Longrightarrow> field d k = None"
  by (simp add: field_def map_of_eq_None_iff)

lemma keys_strict: "fst ` set (strict paths init) \<subseteq> fst ` set init"
  by (auto simp: strict_def)

lemma field_with_default:
  "field (with_default k' v d) k =
     (if k = k' \<and> field d k' = None then Some v else field d k)"
  by (auto simp: with_default_def field_def map_add_def split: option.splits)

lemma new_Ticket_defaults:
  assumes "''status'' \<notin> fst ` set init" "''createdAt'' \<notin> fst ` set init"
  shows "field (new_Ticket oid now init) ''status'' = Some (Str ''active'')"
    and "field (new_Ticket oid now init) ''createdAt'' = Some (DateV now)"
proof -
  have n: "''status'' \<notin> fst ` set ((''_id'', ObjId oid) # strict ticket_paths init)"
    "''createdAt'' \<notin> fst ` set ((''_id'', ObjId oid) # strict ticket_paths init)"
    using assms keys_strict[of ticket_paths init] by auto
  have "field ((''_id'', ObjId oid) # strict ticket_paths init) ''status'' = None"
    "field ((''_id'', ObjId oid) # strict ticket_paths init) ''createdAt'' = None"
    by (rule field_absent[OF n(1)], rule field_absent[OF n(2)])
  then show "field (new_Ticket oid now init) ''status'' = Some (Str ''active'')"
    "field (new_Ticket oid now init) ''createdAt'' = Some (DateV now)"
    by (simp_all add: new_Ticket_def field_with_default)
qed

lemma new_Ticket_no_expiresAt: "field (new_Ticket oid now init) ''expiresAt'' = None"
proof -
  have "''expiresAt'' \<notin> fst ` set ((''_id'', ObjId oid) # strict ticket_paths init)"
    by (auto simp: strict_def ticket_paths_def)
  then have "field ((''_id'', ObjId oid) # strict ticket_paths init) ''expiresAt'' = None"
    by (rule field_absent)
  then show ?thesis
    by (simp add: new_Ticket_def field_with_default)
qed

lemma createTicket_init_keys:
  "''status'' \<notin> fst ` set ([(''ticketId'', a)] @
      literal [(''userId'', u), (''source'', b), (''destination'', c), (''phoneNumber'', d),
               (''bookingDate'', f)] @ [(''qrCode'', g), (''expiresAt'', h)])"
  "''createdAt'' \<notin> fst ` set ([(''ticketId'', a)] @
      literal [(''userId'', u), (''source'', b), (''destination'', c), (''phoneNumber'', d),
               (''bookingDate'', f)] @ [(''qrCode'', g), (''expiresAt'', h)])"
  using keys_literal[of "[(''userId'', u), (''source'', b), (''destination'', c),
      (''phoneNumber'', d), (''bookingDate'', f)]"]
  by auto

lemma save_ticket_appends: "save_ticket d s = Some s' \<Longrightarrow> tickets s' = tickets s @ [d]"
  by (auto simp: save_ticket_def split: if_splits)

lemma field_Nil: "field [] k = None"
  by (simp add: field_def)

lemma field_Cons: "field ((k', v) # d) k = (if k = k' then Some v else field d k)"
  by (simp add: field_def)

text \<open>
  Claim C2. \<^verbatim>\<open>createTicket\<close> computes \<^verbatim>\<open>expiresAt\<close> and passes it to the \<^verbatim>\<open>Ticket\<close>
  constructor, but \<^verbatim>\<open>expiresAt\<close> is not a path of \<^verbatim>\<open>ticketSchema\<close>: whenever the call is
  answered 201, the stored document has status \<^verbatim>\<open>active\<close> and a \<^verbatim>\<open>createdAt\<close> value but no
  \<^verbatim>\<open>expiresAt\<close>, and the ticket object of the answer has \<^verbatim>\<open>createdAt\<close> but no \<^verbatim>\<open>expiresAt\<close>
  property.
\<close>

theorem createTicket_stores_no_expiry:
  assumes "createTicket e source destination phoneNumber bookingDate user s = (r, s')"
    and "status r = 201"
  shows "\<exists>doc answer.
           tickets s' = tickets s @ [doc] \<and>
           field doc ''status'' = Some (Str ''active'') \<and>
           field doc ''createdAt'' = Some (DateV (date_now e 2)) \<and>
           field doc ''expiresAt'' = None \<and>
           field (body r) ''ticket'' = Some (Obj answer) \<and>
           field answer ''createdAt'' = Some (DateV (date_now e 2)) \<and>
           field answer ''expiresAt'' = None"
  using assms
  by (auto simp: createTicket_def Let_def failure_def new_Ticket_no_expiresAt
      new_Ticket_defaults[OF createTicket_init_keys, simplified] field_Nil field_Cons
      dest!: save_ticket_appends split: option.splits if_splits)

text \<open>
  A caller whose token has no \<^verbatim>\<open>userId\<close>, as the tokens of \<^verbatim>\<open>/verify-otp\<close>, stores a
  ticket without an owner.
\<close>

lemma new_Ticket_no_userId:
  assumes "''userId'' \<notin> fst ` set init"
  shows "field (new_Ticket oid now init) ''userId'' = None"
proof -
  have "''userId'' \<notin> fst ` set ((''_id'', ObjId oid) # strict ticket_paths init)"
    using assms keys_strict[of ticket_paths init] by auto
  then have "field ((''_id'', ObjId oid) # strict ticket_paths init) ''userId'' = None"
    by (rule field_absent)
  then show ?thesis
    by (simp add: new_Ticket_def field_with_default)
qed

lemma createTicket_without_identity:
  assumes "createTicket e source destination phoneNumber bookingDate user s = (r, s')"
    and "status r = 201" and "field user ''userId'' = None"
  shows "\<exists>doc. tickets s' = tickets s @ [doc] \<and> field doc ''userId'' = None"
  using assms
  by (auto simp: createTicket_def Let_def failure_def new_Ticket_no_userId
      dest!: save_ticket_appends split: option.splits if_splits)

section \<open>The handlers on the example data\<close>

lemma demo_state_simps:
  "connected demo_state" "users demo_state = [demo_user1, demo_user2]"
  "tickets demo_state = [ticket_of 10 ''TKT-A'' ''QR0'' ''active'',
     ticket_of 11 ''TKT-B'' ''QR1'' ''used'', ticket_of 12 ''TKT-C'' ''QR2'' ''expired'']"
  "connected empty_state" "users empty_state = []" "tickets empty_state = []"
  by (simp_all add: demo_state_def empty_state_def)

lemma demo_user_fields:
  "field demo_user1 ''email'' = Some (Str ''a@x.com'')"
  "field demo_user2 ''email'' = Some (Str ''b@x.com'')"
  "field demo_user1 ''_id'' = Some (ObjId 101)"
  "field demo_user2 ''_id'' = Some (ObjId 102)"
  "str_prop demo_user1 ''password'' = Some ''salted:secret''"
  "str_prop demo_user1 ''faceImagePath'' = Some ''uploads/face-1.jpg''"
  "str_prop demo_user2 ''faceImagePath'' = None"
  by (simp_all add: demo_user1_def demo_user2_def field_def str_prop_def)

lemma ticket_of_fields:
  "field (ticket_of oid ident code st) ''_id'' = Some (ObjId oid)"
  "field (ticket_of oid ident code st) ''ticketId'' = Some (Str ident)"
  "field (ticket_of oid ident code st) ''userId'' = Some (ObjId 101)"
  "field (ticket_of oid ident code st) ''qrCode'' = Some (Str code)"
  "field (ticket_of oid ident code st) ''status'' = Some (Str st)"
  by (simp_all add: ticket_of_def field_def)

lemma register_first:
  "register demo_env (Some ''C'') (Some ''c@x.com'') (Some ''pw'') empty_state =
     (\<lparr>status = 201,
       body = [(''success'', Bool True), (''message'', Str ''User registered successfully''),
               (''token'', Str ''signed''),
               (''user'', Obj [(''id'', ObjId 13), (''name'', Str ''C''),
                               (''email'', Str ''c@x.com'')])]\<rparr>,
      empty_state\<lparr>users :=
        [[(''_id'', ObjId 13), (''name'', Str ''C''), (''email'', Str ''c@x.com''),
          (''password'', Str ''salted:pw''), (''createdAt'', DateV 1735689600000)]]\<rparr>)"
  by (simp add: register_def findOne_def demo_state_simps demo_env_def new_User_def
      with_default_def strict_def user_paths_def field_def save_user_def user_valid_def
      required_string_def duplicate_key_def)

text \<open>
  Registering with the stored email of user A fails and changes nothing; on the empty
  database a first registration succeeds and a second one with the same email fails.
\<close>

theorem register_duplicate_email_witness:
  "register demo_env (Some ''A again'') (Some ''a@x.com'') (Some ''pw'') demo_state =
     (failure 400 ''Email or phone number already registered.'', demo_state) \<and>
   snd (register demo_env None (Some ''a@x.com'') None demo_state) = demo_state \<and>
   status (fst (register demo_env (Some ''C'') (Some ''c@x.com'') (Some ''pw'') empty_state)) = 201 \<and>
   fst (register demo_env (Some ''C'') (Some ''c@x.com'') (Some ''other'')
          (snd (register demo_env (Some ''C'') (Some ''c@x.com'') (Some ''pw'') empty_state))) =
     failure 400 ''Email or phone number already registered.''"
proof -
  have f: "''A again'' \<noteq> []" "''a@x.com'' \<noteq> []" "''pw'' \<noteq> []" "''C'' \<noteq> []"
    "''c@x.com'' \<noteq> []" "''other'' \<noteq> []"
    by simp_all
  have stored: "\<exists>u \<in> set (users demo_state). field u ''email'' = Some (Str ''a@x.com'')"
    by (simp add: demo_state_simps demo_user_fields)
  have first: "status (fst (register demo_env (Some ''C'') (Some ''c@x.com'') (Some ''pw'')
      empty_state)) = 201"
    by (simp add: register_first)
  let ?first = "register demo_env (Some ''C'') (Some ''c@x.com'') (Some ''pw'') empty_state"
  have again: "?first = (fst ?first, snd ?first)" by simp
  show ?thesis
    using register_duplicate_email[OF f(1,2,3), where s = demo_state and e = demo_env
        and name' = None and password' = None]
      register_duplicate_email[OF f(4,5,6), where e = demo_env and ?e1.0 = demo_env
        and ?name1.0 = "Some ''C''" and ?password1.0 = "Some ''pw''" and ?s0.0 = empty_state
        and ?r1.0 = "fst ?first" and ?s1.0 = "snd ?first"]
      stored first again demo_state_simps(1)
    by simp
qed

text \<open>
  The password 123456 sent as a number: 401 for an unknown email, 500 for the email of
  user A. Sent as strings, an unknown email and a wrong password for the email of user
  A get the same answer, and the right password is accepted.
\<close>

theorem login_tells_stored_email_witness:
  "login demo_env (Some (Str ''nobody@x.com'')) (Some (Num 123456)) demo_state =
     (failure 401 ''Invalid credentials.'', demo_state) \<and>
   login demo_env (Some (Str ''a@x.com'')) (Some (Num 123456)) demo_state =
     (failure 500 ''Login failed. Please try again.'', demo_state) \<and>
   login demo_env (Some (Str ''nobody@x.com'')) (Some (Str ''secret'')) demo_state =
     login demo_env (Some (Str ''a@x.com'')) (Some (Str ''guess'')) demo_state \<and>
   login demo_env (Some (Str ''a@x.com'')) (Some (Str ''guess'')) demo_state =
     (failure 401 ''Invalid credentials.'', demo_state) \<and>
   status (fst (login demo_env (Some (Str ''a@x.com'')) (Some (Str ''secret'')) demo_state)) = 200"
proof -
  have ok: "status (fst (login demo_env (Some (Str ''a@x.com'')) (Some (Str ''secret''))
      demo_state)) = 200"
    by (simp add: login_def find_user_by_email_def findOne_def demo_state_simps demo_user_fields
        demo_env_def)
  have h: "connected demo_state" "''nobody@x.com'' \<noteq> []" "''a@x.com'' \<noteq> []"
    "\<forall>u \<in> set (users demo_state). field u ''email'' \<noteq> Some (Str ''nobody@x.com'')"
    "\<exists>u \<in> set (users demo_state). field u ''email'' = Some (Str ''a@x.com'')"
    by (simp_all add: demo_state_simps demo_user_fields)
  have w: "''secret'' \<noteq> [] \<and> ''guess'' \<noteq> [] \<and>
    (\<forall>u \<in> set (users demo_state). field u ''email'' = Some (Str ''a@x.com'') \<longrightarrow>
       (\<exists>h. str_prop u ''password'' = Some h \<and> \<not> bcrypt_compare demo_env ''guess'' h))"
    by (simp add: demo_state_simps demo_user_fields demo_env_def)
  have n: "truthy (Some (Num 123456)) \<and> as_string (Num 123456) = None" by simp
  show ?thesis
    using login_tells_stored_email[OF h, where pw = "Num 123456" and ?e1.0 = demo_env
        and ?e2.0 = demo_env and ?password1.0 = "''secret''" and ?password2.0 = "''guess''"]
      w n ok
    by auto
qed

lemma demo_otp:
  "generate_otp (math_random demo_env) = 550000"
  "generate_otp (math_random unreachable_env) = 550000"
  "generate_otp (math_random resend_env) = 325000"
  by (simp_all add: demo_env_def unreachable_env_def resend_env_def generate_otp_half
      generate_otp_quarter)

lemma demo_delivery:
  "twilio_create unreachable_env p text = Rejected ''unreachable''"
  "twilio_create demo_env p text = Delivered"
  "twilio_create resend_env p text = Delivered"
  "date_now demo_env 0 = 1735689600000"
  "date_now resend_env 0 = 1735689700000"
  by (simp_all add: unreachable_env_def demo_env_def resend_env_def)

lemma first_sent_eval:
  "first_sent = demo_state\<lparr>otpStore := [(''+911234567891'', ''550000'')],
                             timers := [(1735689900000, ''+911234567891'')]\<rparr>"
proof -
  have "first_sent =
      demo_state\<lparr>otpStore := AList.update ''+911234567891''
                     (string_of_int (generate_otp (math_random demo_env))) (otpStore demo_state),
                 timers := timers demo_state @ [(date_now demo_env 0 + 300000, ''+911234567891'')]\<rparr>"
    unfolding first_sent_def by (rule sendOtp_delivered(2)) (simp_all add: demo_delivery)
  then show ?thesis
    by (simp add: demo_otp string_of_int_examples demo_delivery demo_state_def)
qed

lemma second_sent_eval:
  "second_sent = demo_state\<lparr>otpStore := [(''+911234567891'', ''325000'')],
                              timers := [(1735689900000, ''+911234567891''),
                                         (1735690000000, ''+911234567891'')]\<rparr>"
proof -
  have "second_sent =
      first_sent\<lparr>otpStore := AList.update ''+911234567891''
                     (string_of_int (generate_otp (math_random resend_env))) (otpStore first_sent),
                 timers := timers first_sent @ [(date_now resend_env 0 + 300000, ''+911234567891'')]\<rparr>"
    unfolding second_sent_def by (rule sendOtp_delivered(2)) (simp_all add: demo_delivery)
  then show ?thesis
    by (simp add: demo_otp string_of_int_examples demo_delivery first_sent_eval)
qed

lemma second_sent_advance:
  "otpStore (advance 1735689899999 second_sent) = [(''+911234567891'', ''325000'')]"
  "otpStore (advance 1735689900000 second_sent) = []"
  by (simp_all add: advance_def second_sent_eval otp_delete_def)

text \<open>
  On the example data. A rejected delivery leaves the state as it was. A first code is
  delivered at 1735689600000 and is stored until its timer runs at 1735689900000. When a
  second code is delivered to the same number at 1735689700000, the timer of the first
  delivery deletes it at 1735689900000, 200 seconds after it was stored: one millisecond
  before, the code is stored, and from then on a verification with the right code is
  answered "OTP expired or not requested.".
\<close>

theorem sendOtp_resend_cuts_lifetime_witness:
  "status (fst (sendOtp unreachable_env (Some ''+911234567891'') demo_state)) = 500 \<and>
   snd (sendOtp unreachable_env (Some ''+911234567891'') demo_state) = demo_state \<and>
   status (fst (sendOtp demo_env (Some ''+911234567891'') demo_state)) = 200 \<and>
   otp_read (otpStore first_sent) ''+911234567891'' = Own ''550000'' \<and>
   timers first_sent = [(1735689900000, ''+911234567891'')] \<and>
   otp_read (otpStore (advance 1735689899999 first_sent)) ''+911234567891'' = Own ''550000'' \<and>
   otp_read (otpStore (advance 1735689900000 first_sent)) ''+911234567891'' = Undefined \<and>
   status (fst (sendOtp resend_env (Some ''+911234567891'') first_sent)) = 200 \<and>
   otp_read (otpStore second_sent) ''+911234567891'' = Own ''325000'' \<and>
   timers second_sent = [(1735689900000, ''+911234567891''), (1735690000000, ''+911234567891'')] \<and>
   otp_read (otpStore (advance 1735689899999 second_sent)) ''+911234567891'' = Own ''325000'' \<and>
   otp_read (otpStore (advance 1735689900000 second_sent)) ''+911234567891'' = Undefined \<and>
   verifyOtp demo_env (Some ''+911234567891'') (Some (Str ''325000''))
       (advance 1735689900000 second_sent) =
     (failure 400 ''OTP expired or not requested.'', advance 1735689900000 second_sent)"
proof -
  have p: "''+911234567891'' \<noteq> []" "startsWith_plus ''+911234567891''" by simp_all
  have n: "timers demo_state = []" "otpStore demo_state = []"
    by (simp_all add: demo_state_def)
  have late: "verifyOtp demo_env (Some ''+911234567891'') (Some (Str ''325000''))
       (advance 1735689900000 second_sent) =
     (failure 400 ''OTP expired or not requested.'', advance 1735689900000 second_sent)"
    by (rule verifyOtp_no_code)
       (simp_all add: second_sent_advance object_prototype_keys_def)
  have early: "otp_read (otpStore (advance 1735689899999 second_sent)) ''+911234567891'' = Own ''325000''"
    by (simp add: second_sent_advance otp_read_def)
  show ?thesis
    using sendOtp_resend_cuts_lifetime[OF p, of unreachable_env "''unreachable''" demo_state]
      sendOtp_resend_cuts_lifetime[OF p, of demo_env "''unreachable''" demo_state]
      sendOtp_resend_cuts_lifetime[OF p, of resend_env "''unreachable''" first_sent]
      late early
    by (simp add: demo_otp string_of_int_examples demo_delivery n
        first_sent_def[symmetric] second_sent_def[symmetric])
qed


lemma owner_payload: "field [(''userId'', ObjId 101)] ''userId'' = Some (ObjId 101)"
  "field [(''userId'', ObjId 102)] ''userId'' = Some (ObjId 102)"
  by (simp_all add: field_def)

lemma verify_used_real:
  "verifyTicket demo_env (Some ''QR1'') (Some ''live'') [(''userId'', ObjId 101)] demo_state =
     (failure 403 ''Face verification failed'', demo_state)"
  by (simp add: verifyTicket_def verifyTicket_with_def Let_def findOne_def findById_def owner_payload
      demo_state_simps ticket_of_fields demo_user_fields compareFaces_false)

lemma verify_used_matching:
  "verifyTicket_with always_match (Some ''QR1'') (Some ''live'') [(''userId'', ObjId 101)] demo_state =
     (\<lparr>status = 200,
       body = [(''success'', Bool True), (''message'', Str ''Ticket verified successfully'')]\<rparr>,
      demo_state)"
  by (simp add: verifyTicket_with_def Let_def findOne_def findById_def owner_payload
      demo_state_simps ticket_of_fields demo_user_fields always_match_def update_status_def
      set_status_def)
     (simp add: demo_state_def ticket_of_def)

lemma verify_expired_matching:
  "verifyTicket_with always_match (Some ''QR2'') (Some ''live'') [(''userId'', ObjId 101)] demo_state =
     (\<lparr>status = 200,
       body = [(''success'', Bool True), (''message'', Str ''Ticket verified successfully'')]\<rparr>,
      demo_state\<lparr>tickets := [ticket_of 10 ''TKT-A'' ''QR0'' ''active'',
         ticket_of 11 ''TKT-B'' ''QR1'' ''used'', ticket_of 12 ''TKT-C'' ''QR2'' ''used'']\<rparr>)"
  by (simp add: verifyTicket_with_def Let_def findOne_def findById_def owner_payload
      demo_state_simps ticket_of_fields demo_user_fields always_match_def update_status_def
      set_status_def)
     (simp add: ticket_of_def)

text \<open>
  The claim C1 as the specification states it fails on the example data. User A owns
  the used ticket with code \<^verbatim>\<open>QR1\<close> and has a registered face: the route answers 403
  "Face verification failed", which is no conflict answer, and with a face check that
  reports a match the same request is answered 200. With such a face check the expired
  ticket with code \<^verbatim>\<open>QR2\<close> leaves its status and becomes used.
\<close>

theorem verifyTicket_used_not_conflict:
  "field (tickets demo_state ! 1) ''status'' = Some (Str ''used'') \<and>
   field (tickets demo_state ! 1) ''qrCode'' = Some (Str ''QR1'') \<and>
   field (tickets demo_state ! 1) ''userId'' = Some (ObjId 101) \<and>
   verifyTicket demo_env (Some ''QR1'') (Some ''live'') [(''userId'', ObjId 101)] demo_state =
     (failure 403 ''Face verification failed'', demo_state) \<and>
   status (fst (verifyTicket demo_env (Some ''QR1'') (Some ''live'') [(''userId'', ObjId 101)]
     demo_state)) \<notin> {400, 409} \<and>
   status (fst (verifyTicket_with always_match (Some ''QR1'') (Some ''live'')
     [(''userId'', ObjId 101)] demo_state)) = 200 \<and>
   field (tickets demo_state ! 2) ''status'' = Some (Str ''expired'') \<and>
   field (tickets (snd (verifyTicket_with always_match (Some ''QR2'') (Some ''live'')
     [(''userId'', ObjId 101)] demo_state)) ! 2) ''status'' = Some (Str ''used'')"
  by (simp add: verify_used_real verify_used_matching verify_expired_matching
      demo_state_simps ticket_of_fields failure_def)

text \<open>
  The expired ticket of user A is answered by the face gate, as it would be if every
  ticket were active, and the failing call changes nothing; the used ticket stays used
  when the face check reports a match.
\<close>

theorem verifyTicket_no_status_check_witness:
  "fst (verifyTicket_with (compareFaces demo_env) (Some ''QR2'') (Some ''live'')
         [(''userId'', ObjId 101)] demo_state) = failure 403 ''Face verification failed'' \<and>
   snd (verifyTicket_with (compareFaces demo_env) (Some ''QR2'') (Some ''live'')
         [(''userId'', ObjId 101)] demo_state) = demo_state \<and>
   fst (verifyTicket_with (compareFaces demo_env) (Some ''QR2'') (Some ''live'')
         [(''userId'', ObjId 101)]
         (demo_state\<lparr>tickets := map (set_status (Str ''active'')) (tickets demo_state)\<rparr>)) =
     failure 403 ''Face verification failed'' \<and>
   field (tickets (snd (verifyTicket_with always_match (Some ''QR1'') (Some ''live'')
     [(''userId'', ObjId 101)] demo_state)) ! 1) ''status'' = Some (Str ''used'')"
proof -
  let ?r = "verifyTicket_with (compareFaces demo_env) (Some ''QR2'') (Some ''live'')
         [(''userId'', ObjId 101)] demo_state"
  have r: "?r = (failure 403 ''Face verification failed'', demo_state)"
    by (simp add: verifyTicket_with_def Let_def findOne_def findById_def owner_payload
      demo_state_simps ticket_of_fields demo_user_fields compareFaces_false)
  have "(1::nat) < length (tickets demo_state)" by (simp add: demo_state_simps)
  then show ?thesis
    using verifyTicket_no_status_check[OF r] verifyTicket_no_status_check[OF verify_used_matching]
    by (simp add: r verify_used_matching failure_def demo_state_simps ticket_of_fields)
qed

lemma bearer:
  "authenticateToken demo_env (Some ''Bearer token-of-1'') =
     Inr [(''userId'', ObjId 101), (''email'', Str ''a@x.com'')]"
  "authenticateToken demo_env (Some ''Bearer token-of-2'') =
     Inr [(''userId'', ObjId 102), (''email'', Str ''b@x.com'')]"
  "authenticateToken demo_env (Some ''Bearer token-of-otp'') =
     Inr [(''phoneNumber'', Str ''+911234567891'')]"
  by (simp_all add: authenticateToken_def demo_env_def)

lemma null_state_simps:
  "connected null_state" "\<not> drops_undefined null_state"
  "tickets null_state = [ticket_of 10 ''TKT-A'' ''QR0'' ''active'',
     ticket_of 11 ''TKT-B'' ''QR1'' ''used'', ticket_of 12 ''TKT-C'' ''QR2'' ''expired'',
     anonymous_ticket]"
  "connected dropping_state" "drops_undefined dropping_state"
  "tickets dropping_state = tickets null_state"
  by (simp_all add: null_state_def dropping_state_def demo_state_def)

lemma anonymous_ticket_fields:
  "field anonymous_ticket ''qrCode'' = Some (Str ''QR4'')"
  "field anonymous_ticket ''userId'' = None"
  by (simp_all add: anonymous_ticket_def field_def)

text \<open>
  A caller with a token of \<^verbatim>\<open>/verify-otp\<close> scans codes. Where the query sends null for
  the \<^verbatim>\<open>undefined\<close> identifier: the code \<^verbatim>\<open>QR4\<close> of the ticket without an owner is
  answered 400, the code \<^verbatim>\<open>QR9\<close> that no ticket has 404. Where the query leaves the
  condition out: the code \<^verbatim>\<open>QR1\<close> of a ticket of user A is answered 400, and \<^verbatim>\<open>QR9\<close> 404.
  User B, whose token carries an identifier, gets 404 for both \<^verbatim>\<open>QR1\<close> and \<^verbatim>\<open>QR9\<close>.
\<close>

theorem verifyTicket_otp_token_tells_existence_witness:
  "route_verify_ticket demo_env (Some ''Bearer token-of-otp'') (Some ''QR4'') (Some ''live'')
       null_state = (failure 400 ''User face not registered'', null_state) \<and>
   route_verify_ticket demo_env (Some ''Bearer token-of-otp'') (Some ''QR9'') (Some ''live'')
       null_state = (failure 404 ''Ticket not found or doesn't belong to user'', null_state) \<and>
   route_verify_ticket demo_env (Some ''Bearer token-of-otp'') (Some ''QR1'') (Some ''live'')
       dropping_state = (failure 400 ''User face not registered'', dropping_state) \<and>
   route_verify_ticket demo_env (Some ''Bearer token-of-otp'') (Some ''QR9'') (Some ''live'')
       dropping_state =
     (failure 404 ''Ticket not found or doesn't belong to user'', dropping_state) \<and>
   route_verify_ticket demo_env (Some ''Bearer token-of-2'') (Some ''QR1'') (Some ''live'')
       null_state = (failure 404 ''Ticket not found or doesn't belong to user'', null_state) \<and>
   route_verify_ticket demo_env (Some ''Bearer token-of-2'') (Some ''QR9'') (Some ''live'')
       null_state = (failure 404 ''Ticket not found or doesn't belong to user'', null_state) \<and>
   status (fst (route_verify_ticket demo_env (Some ''Bearer token-of-1'') (Some ''QR1'')
       (Some ''live'') demo_state)) = 403"
proof -
  have a: "field [(''phoneNumber'', Str ''+911234567891'')] ''userId'' = None"
    "field [(''userId'', ObjId 102), (''email'', Str ''b@x.com'')] ''userId'' = Some (ObjId 102)"
    "field [(''userId'', ObjId 101), (''email'', Str ''a@x.com'')] ''userId'' = Some (ObjId 101)"
    by (simp_all add: field_def)
  have own: "status (fst (verifyTicket demo_env (Some ''QR1'') (Some ''live'')
      [(''userId'', ObjId 101), (''email'', Str ''a@x.com'')] demo_state)) = 403"
    by (simp add: verifyTicket_def verifyTicket_with_def Let_def findOne_def findById_def a
        demo_state_simps ticket_of_fields demo_user_fields compareFaces_false failure_def)
  have t: "\<forall>t \<in> set (tickets null_state). \<not> (field t ''qrCode'' = Some (Str ''QR1'') \<and>
             field t ''userId'' = Some (ObjId 102))"
    "\<forall>t \<in> set (tickets null_state). \<not> (field t ''qrCode'' = Some (Str ''QR9'') \<and>
             field t ''userId'' = Some (ObjId 102))"
    "\<exists>t \<in> set (tickets null_state). field t ''qrCode'' = Some (Str ''QR4'') \<and>
             field t ''userId'' = None"
    "\<forall>t \<in> set (tickets null_state). \<not> (field t ''qrCode'' = Some (Str ''QR9'') \<and>
             field t ''userId'' = None)"
    "\<exists>t \<in> set (tickets dropping_state). field t ''qrCode'' = Some (Str ''QR1'')"
    "\<forall>t \<in> set (tickets dropping_state). field t ''qrCode'' \<noteq> Some (Str ''QR9'')"
    by (simp_all add: null_state_simps ticket_of_fields anonymous_ticket_fields)
  show ?thesis
    using verifyTicket_otp_token_tells_existence[OF null_state_simps(1) a(1),
        where q = "''QR4''" and e = demo_env and face = "Some ''live''"]
      verifyTicket_otp_token_tells_existence[OF null_state_simps(1) a(1),
        where q = "''QR9''" and e = demo_env and face = "Some ''live''"]
      verifyTicket_otp_token_tells_existence[OF null_state_simps(1) a(1),
        where q = "''QR1''" and e = demo_env and face = "Some ''live''"]
      verifyTicket_otp_token_tells_existence[OF null_state_simps(4) a(1),
        where q = "''QR1''" and e = demo_env and face = "Some ''live''"]
      verifyTicket_otp_token_tells_existence[OF null_state_simps(4) a(1),
        where q = "''QR9''" and e = demo_env and face = "Some ''live''"]
      t a own null_state_simps(2,5)
    by (simp add: route_verify_ticket_def authenticated_def bearer)
qed

text \<open>User B fetches the used ticket of user A and gets the whole document.\<close>

theorem getTicket_no_ownership_check_witness:
  "field (ticket_of 11 ''TKT-B'' ''QR1'' ''used'') ''userId'' = Some (ObjId 101) \<and>
   authenticateToken demo_env (Some ''Bearer token-of-2'') =
     Inr [(''userId'', ObjId 102), (''email'', Str ''b@x.com'')] \<and>
   route_get_ticket demo_env (Some ''Bearer token-of-1'') ''TKT-B'' demo_state =
     route_get_ticket demo_env (Some ''Bearer token-of-2'') ''TKT-B'' demo_state \<and>
   route_get_ticket demo_env (Some ''Bearer token-of-2'') ''TKT-B'' demo_state =
     (\<lparr>status = 200,
       body = [(''success'', Bool True), (''ticket'', Obj (ticket_of 11 ''TKT-B'' ''QR1'' ''used''))]\<rparr>,
      demo_state)"
proof -
  have h: "connected demo_state \<and> ticket_of 11 ''TKT-B'' ''QR1'' ''used'' \<in> set (tickets demo_state) \<and>
      field (ticket_of 11 ''TKT-B'' ''QR1'' ''used'') ''ticketId'' = Some (Str ''TKT-B'') \<and>
      (\<forall>t' \<in> set (tickets demo_state). field t' ''ticketId'' = Some (Str ''TKT-B'') \<longrightarrow>
         t' = ticket_of 11 ''TKT-B'' ''QR1'' ''used'')"
    by (simp add: demo_state_simps ticket_of_fields)
  show ?thesis
    using getTicket_no_ownership_check[OF bearer(1,2), of "''TKT-B''" demo_state
        "ticket_of 11 ''TKT-B'' ''QR1'' ''used''"] h
    by (simp add: bearer ticket_of_fields)
qed

lemma new_Ticket_example:
  "new_Ticket 13 1735689600002
     [(''ticketId'', Str ''TKT-M5D4RUO0''), (''userId'', ObjId 101), (''source'', Str ''X''),
      (''destination'', Str ''Y''), (''phoneNumber'', Str ''+911234567890''),
      (''bookingDate'', DateV 1735689600000), (''qrCode'', Str ''data:image/png;base64,QR3''),
      (''expiresAt'', DateV 1735776000001)] = created_ticket"
  by (simp add: new_Ticket_def with_default_def strict_def ticket_paths_def field_def
      created_ticket_def)

lemma save_ticket_example:
  "save_ticket created_ticket demo_state =
     Some (demo_state\<lparr>tickets := tickets demo_state @ [created_ticket]\<rparr>)"
  by (simp add: save_ticket_def ticket_valid_def required_string_def duplicate_key_def
      field_def created_ticket_def demo_state_def ticket_of_def)

lemma createTicket_example:
  "createTicket demo_env (Some ''X'') (Some ''Y'') (Some ''+911234567890'') (Some ''2025-01-01'')
     [(''userId'', ObjId 101)] demo_state =
   (\<lparr>status = 201,
     body =
       [(''success'', Bool True), (''message'', Str ''Ticket created successfully''),
        (''ticket'', Obj
          [(''ticketId'', Str ''TKT-M5D4RUO0''), (''source'', Str ''X''),
           (''destination'', Str ''Y''), (''phoneNumber'', Str ''+911234567890''),
           (''bookingDate'', Str ''2025-01-01''), (''qrCode'', Str ''data:image/png;base64,QR3''),
           (''createdAt'', DateV 1735689600002)])]\<rparr>,
    demo_state\<lparr>tickets := tickets demo_state @ [created_ticket]\<rparr>)"
proof -
  have e: "date_now demo_env 0 = 1735689600000" "date_now demo_env 1 = 1735689600001"
    "date_now demo_env 2 = 1735689600002" "new_object_id demo_env = 13"
    "date_parse demo_env ''2025-01-01'' = Some 1735689600000"
    "\<And>x. qr_toDataURL demo_env x = Some ''data:image/png;base64,QR3''"
    by (simp_all add: demo_env_def)
  have c: "field created_ticket ''createdAt'' = Some (DateV 1735689600002)"
    "field created_ticket ''expiresAt'' = None"
    by (simp_all add: created_ticket_def field_def)
  show ?thesis
    unfolding createTicket_def
    by (simp add: e owner_payload base36_example new_Ticket_example save_ticket_example c Let_def
        del: One_nat_def)
qed

text \<open>
  User A creates a ticket with all four fields: the 201 answer and the stored document
  carry \<^verbatim>\<open>createdAt\<close> and no \<^verbatim>\<open>expiresAt\<close>.
\<close>

theorem createTicket_stores_no_expiry_witness:
  "createTicket demo_env (Some ''X'') (Some ''Y'') (Some ''+911234567890'') (Some ''2025-01-01'')
     [(''userId'', ObjId 101)] demo_state =
   (\<lparr>status = 201,
     body =
       [(''success'', Bool True), (''message'', Str ''Ticket created successfully''),
        (''ticket'', Obj
          [(''ticketId'', Str ''TKT-M5D4RUO0''), (''source'', Str ''X''),
           (''destination'', Str ''Y''), (''phoneNumber'', Str ''+911234567890''),
           (''bookingDate'', Str ''2025-01-01''), (''qrCode'', Str ''data:image/png;base64,QR3''),
           (''createdAt'', DateV 1735689600002)])]\<rparr>,
    demo_state\<lparr>tickets := tickets demo_state @ [created_ticket]\<rparr>) \<and>
   field created_ticket ''status'' = Some (Str ''active'') \<and>
   field created_ticket ''createdAt'' = Some (DateV 1735689600002) \<and>
   field created_ticket ''expiresAt'' = None"
proof -
  have "status \<lparr>status = 201,
     body =
       [(''success'', Bool True), (''message'', Str ''Ticket created successfully''),
        (''ticket'', Obj
          [(''ticketId'', Str ''TKT-M5D4RUO0''), (''source'', Str ''X''),
           (''destination'', Str ''Y''), (''phoneNumber'', Str ''+911234567890''),
           (''bookingDate'', Str ''2025-01-01''), (''qrCode'', Str ''data:image/png;base64,QR3''),
           (''createdAt'', DateV 1735689600002)])]\<rparr> = 201"
    by simp
  moreover have "date_now demo_env 2 = 1735689600002"
    by (simp add: demo_env_def)
  ultimately show ?thesis
    using createTicket_stores_no_expiry[OF createTicket_example]
    by (simp add: createTicket_example)
qed

end
